theory Spec2Isabelle
  imports
    Complex_Main
    "HOL-Library.Char_ord"
    "HOL-Library.List_Lexorder"
    "HOL-Library.Product_Lexorder"
    "HOL-Library.Multiset"
begin

section \<open>Retail dashboard (app.py): data model\<close>

text \<open>
  The script reads \<^verbatim>\<open>OnlineRetail.csv\<close> into a pandas DataFrame, cleans it in
  \<^verbatim>\<open>load_data\<close> and renders one of eight report sections. A DataFrame is modelled
  as the list of its rows, in row order; a row is a record with one field per column, named
  as the column is. Every cell of the file may be missing (pandas NaN / NaT), so every
  field is an \<open>option\<close> with \<open>None\<close> for the missing cell.

  Numbers: a cell of \<^verbatim>\<open>Quantity\<close> is read as the integer it holds, a cell of
  \<^verbatim>\<open>UnitPrice\<close> as the rational it holds; comparisons with 0 are on these values.
  Arithmetic is another matter: pandas keeps a numeric column as \<^verbatim>\<open>int64\<close> or as
  \<^verbatim>\<open>float64\<close>, as \<^verbatim>\<open>read_csv\<close> found the file, and numpy multiplies and adds
  in that type (64-bit integers wrap around, floats round, and a float sum depends on the
  order of the additions). Products and sums are therefore not computed here with exact
  arithmetic: the routines that compute them are parameters (\<open>pandas\<close> below), and the
  routines for two \<^verbatim>\<open>int64\<close> columns are written out (\<open>int64_lib\<close>). The values
  of the derived column \<^verbatim>\<open>Revenue\<close> have the type \<open>'v\<close> of the results of that
  arithmetic.

  Timestamps are integers (pandas stores \<^verbatim>\<open>datetime64[ns]\<close>: nanoseconds since the
  epoch). Library routines whose code is not part of the script (date parsing, calendar
  fields, string upper-casing, itemset mining) are parameters of the functions that call
  them.
\<close>

type_synonym timestamp = int

datatype error = MemoryError | DateParseError | OtherError string

record 'd transaction =
  InvoiceNo :: "string option"
  StockCode :: "string option"
  Description :: "string option"
  Quantity :: "int option"
  InvoiceDate :: "'d option"
  UnitPrice :: "rat option"
  CustomerID :: "int option"
  Country :: "string option"

text \<open>The loaded frame has the parsed date and the added column \<^verbatim>\<open>Revenue\<close>.\<close>

record 'v row = "timestamp transaction" +
  Revenue :: "'v option"

subsection \<open>What pandas and numpy contribute\<close>

text \<open>
  \<^item> \<open>invoice_int64\<close>: whether \<^verbatim>\<open>read_csv\<close> made \<^verbatim>\<open>InvoiceNo\<close> a column of
    64-bit integers (every invoice number of the file is a number) or of texts; labels of
    the first kind sort by value, of the second kind as text.
  \<^item> \<open>multiply\<close>: the product of a \<^verbatim>\<open>Quantity\<close> cell and a \<^verbatim>\<open>UnitPrice\<close>
    cell in the number types of the two columns; \<open>None\<close> is NaN.
  \<^item> \<open>sum_quantity\<close>: the sum of the \<^verbatim>\<open>Quantity\<close> cells of a group.
  \<^item> \<open>sum_revenue\<close>, \<open>group_sum_revenue\<close>: the sum of \<^verbatim>\<open>Revenue\<close> cells by
    \<^verbatim>\<open>Series.sum\<close> and by \<^verbatim>\<open>GroupBy.sum\<close> (two routines in pandas).
  \<^item> \<open>tie_order\<close>: the sorting routine behind \<^verbatim>\<open>sort_values\<close> is not stable; the
    order in which it leaves entries of equal value is given by this ranking of the labels.
\<close>

record 'v pandas =
  invoice_int64 :: bool
  multiply :: "int \<Rightarrow> rat \<Rightarrow> 'v option"
  sum_quantity :: "int list \<Rightarrow> int"
  sum_revenue :: "'v list \<Rightarrow> 'v"
  group_sum_revenue :: "'v list \<Rightarrow> 'v"
  tie_order :: "string \<Rightarrow> nat"

text \<open>
  Two columns of type \<^verbatim>\<open>int64\<close> (every quantity and every unit price of the file is
  a whole number): products and sums are taken modulo \<open>2 ^ 64\<close> and read as signed.
\<close>

definition wrap64 :: "int \<Rightarrow> int" where
  "wrap64 n = (n + 2 ^ 63) mod 2 ^ 64 - 2 ^ 63"

definition int64_lib :: "int pandas" where
  "int64_lib =
     \<lparr>invoice_int64 = False,
      multiply = (\<lambda>q p. Some (wrap64 (q * \<lfloor>p\<rfloor>))),
      sum_quantity = (\<lambda>qs. wrap64 (sum_list qs)),
      sum_revenue = (\<lambda>vs. wrap64 (sum_list vs)),
      group_sum_revenue = (\<lambda>vs. wrap64 (sum_list vs)),
      tie_order = (\<lambda>k. 0)\<rparr>"

text \<open>
  Sums that depend neither on the order of the cells nor on summing group by group first.
  The wrap-around sums of \<^verbatim>\<open>int64\<close> are of this kind; the rounded sums of
  \<^verbatim>\<open>float64\<close> are not.
\<close>

definition sums_regroup :: "'v pandas \<Rightarrow> bool" where
  "sums_regroup P \<longleftrightarrow>
     (\<forall>xs ys. mset xs = mset ys \<longrightarrow> sum_revenue P xs = sum_revenue P ys)
     \<and> (\<forall>xss. sum_revenue P (map (group_sum_revenue P) xss) = sum_revenue P (concat xss))"

subsection \<open>pandas column operations used by the script\<close>

text \<open>\<^verbatim>\<open>.astype(str)\<close> on a cell: a missing cell becomes the text \<^verbatim>\<open>nan\<close>.\<close>

definition astype_str :: "string option \<Rightarrow> string" where
  "astype_str c = (case c of None \<Rightarrow> ''nan'' | Some s \<Rightarrow> s)"

text \<open>\<^verbatim>\<open>str.startswith(p)\<close>.\<close>

definition startswith :: "string \<Rightarrow> string \<Rightarrow> bool" where
  "startswith p s = (take (length p) s = p)"

text \<open>\<^verbatim>\<open>col > 0\<close> and \<^verbatim>\<open>col <= 0\<close>: a comparison with a missing cell is False.\<close>

definition gt0 :: "'a::{zero,ord} option \<Rightarrow> bool" where
  "gt0 c = (case c of None \<Rightarrow> False | Some v \<Rightarrow> 0 < v)"

definition le0 :: "'a::{zero,ord} option \<Rightarrow> bool" where
  "le0 c = (case c of None \<Rightarrow> False | Some v \<Rightarrow> v \<le> 0)"

text \<open>
  \<^verbatim>\<open>df['Quantity'] * df['UnitPrice']\<close>, cell by cell: missing if either cell is,
  otherwise the product \<open>m\<close> of the library.
\<close>

definition mul_cells :: "(int \<Rightarrow> rat \<Rightarrow> 'v option) \<Rightarrow> int option \<Rightarrow> rat option \<Rightarrow> 'v option" where
  "mul_cells m q p =
     (case q of None \<Rightarrow> None
      | Some a \<Rightarrow> (case p of None \<Rightarrow> None | Some b \<Rightarrow> m a b))"

text \<open>
  \<^verbatim>\<open>pd.to_datetime(column)\<close>: a missing cell becomes NaT, a text that does not
  parse raises (the whole call fails). The parser itself is the parameter \<open>parse\<close>.
\<close>

fun to_datetime ::
  "(string \<Rightarrow> timestamp option) \<Rightarrow> string option list \<Rightarrow> error + timestamp option list" where
  "to_datetime parse [] = Inr []"
| "to_datetime parse (None # cs) =
     (case to_datetime parse cs of Inl e \<Rightarrow> Inl e | Inr ts \<Rightarrow> Inr (None # ts))"
| "to_datetime parse (Some s # cs) =
     (case parse s of
        None \<Rightarrow> Inl DateParseError
      | Some t \<Rightarrow>
          (case to_datetime parse cs of Inl e \<Rightarrow> Inl e | Inr ts \<Rightarrow> Inr (Some t # ts)))"

text \<open>
  \<^verbatim>\<open>.sum()\<close> of a column skips missing cells and hands the others, in column order, to
  the summing routine \<open>s\<close> of the library.
\<close>

definition nansum :: "('a list \<Rightarrow> 'a) \<Rightarrow> 'a option list \<Rightarrow> 'a" where
  "nansum s cs = s (List.map_filter id cs)"

subsection \<open>load\_data (app.py, lines 15-22)\<close>

definition with_date :: "string transaction \<Rightarrow> timestamp option \<Rightarrow> timestamp transaction" where
  "with_date r t =
     \<lparr>InvoiceNo = InvoiceNo r, StockCode = StockCode r, Description = Description r,
      Quantity = Quantity r, InvoiceDate = t, UnitPrice = UnitPrice r,
      CustomerID = CustomerID r, Country = Country r\<rparr>"

definition add_revenue :: "'v pandas \<Rightarrow> timestamp transaction \<Rightarrow> 'v row" where
  "add_revenue P r =
     \<lparr>InvoiceNo = InvoiceNo r, StockCode = StockCode r, Description = Description r,
      Quantity = Quantity r, InvoiceDate = InvoiceDate r, UnitPrice = UnitPrice r,
      CustomerID = CustomerID r, Country = Country r,
      Revenue = mul_cells (multiply P) (Quantity r) (UnitPrice r)\<rparr>"

text \<open>
  \<open>csv\<close> is the frame \<^verbatim>\<open>pd.read_csv\<close> returned. The three filters run in the
  order of the source; the date column is parsed on the rows that are left.
\<close>

definition load_data ::
  "(string \<Rightarrow> timestamp option) \<Rightarrow> 'v pandas \<Rightarrow> string transaction list \<Rightarrow> error + 'v row list" where
  "load_data parse P csv =
     (let df = filter (\<lambda>r. CustomerID r \<noteq> None) csv;
          df = filter (\<lambda>r. \<not> startswith ''C'' (astype_str (InvoiceNo r))) df;
          df = filter (\<lambda>r. gt0 (Quantity r)) df
      in case to_datetime parse (map InvoiceDate df) of
           Inl e \<Rightarrow> Inl e
         | Inr dates \<Rightarrow> Inr (map (add_revenue P) (map2 with_date df dates)))"

subsection \<open>Group-by, aggregation and sorting\<close>

text \<open>
  \<^verbatim>\<open>df.groupby(key)\<close>: rows whose key cell is missing belong to no group (pandas
  drops them), the groups come in ascending key order, and each group keeps its rows in
  frame order.
\<close>

definition group_keys :: "('r \<Rightarrow> 'k::linorder option) \<Rightarrow> 'r list \<Rightarrow> 'k list" where
  "group_keys key df = sort (remdups (List.map_filter key df))"

definition groupby :: "('r \<Rightarrow> 'k::linorder option) \<Rightarrow> 'r list \<Rightarrow> ('k \<times> 'r list) list" where
  "groupby key df = map (\<lambda>k. (k, filter (\<lambda>r. key r = Some k) df)) (group_keys key df)"

text \<open>Aggregating each group gives a Series: the list of (index label, value).\<close>

definition agg :: "('r list \<Rightarrow> 'v) \<Rightarrow> ('k \<times> 'r list) list \<Rightarrow> ('k \<times> 'v) list" where
  "agg f gs = map (\<lambda>(k, g). (k, f g)) gs"

text \<open>
  \<^verbatim>\<open>.sort_values(ascending=False)\<close>: the entries in descending order of their values.
  Entries of equal value come in the order the sorting routine leaves them, here by
  descending rank \<open>tie\<close> of their labels: any order the routine may choose is that of some
  ranking, and the theorems below hold for every ranking.
\<close>

definition sort_values_desc :: "('k \<Rightarrow> nat) \<Rightarrow> ('k \<times> 'v::linorder) list \<Rightarrow> ('k \<times> 'v) list" where
  "sort_values_desc tie s = rev (sort_key (\<lambda>(k, v). (v, tie k)) s)"

text \<open>\<^verbatim>\<open>.count()\<close> and \<^verbatim>\<open>.nunique()\<close> of a column leave missing cells out.\<close>

definition count :: "'a option list \<Rightarrow> nat" where
  "count cs = length (List.map_filter id cs)"

definition nunique :: "'a option list \<Rightarrow> nat" where
  "nunique cs = length (remdups (List.map_filter id cs))"

text \<open>\<^verbatim>\<open>.max()\<close> of a column skips missing cells and is missing when there is none.\<close>

definition col_max :: "'a::linorder option list \<Rightarrow> 'a option" where
  "col_max cs = (case List.map_filter id cs of [] \<Rightarrow> None | x # xs \<Rightarrow> Some (fold max xs x))"

text \<open>\<^verbatim>\<open>col.isin(values)\<close>: a missing cell is in no list of present values.\<close>

definition isin :: "'a option \<Rightarrow> 'a list \<Rightarrow> bool" where
  "isin c vs = (case c of None \<Rightarrow> False | Some v \<Rightarrow> v \<in> set vs)"

subsection \<open>Sales performance and country views (lines 39, 139)\<close>

definition total_revenue :: "'v pandas \<Rightarrow> 'v row list \<Rightarrow> 'v" where
  "total_revenue P df = nansum (sum_revenue P) (map Revenue df)"

definition country_sales :: "'v::linorder pandas \<Rightarrow> 'v row list \<Rightarrow> (string \<times> 'v) list" where
  "country_sales P df =
     sort_values_desc (tie_order P)
       (agg (\<lambda>g. nansum (group_sum_revenue P) (map Revenue g)) (groupby Country df))"

subsection \<open>Fraud view (line 161)\<close>

definition fraud :: "'v row list \<Rightarrow> 'v row list" where
  "fraud df = filter (\<lambda>r. le0 (Quantity r) \<or> le0 (UnitPrice r)) df"

subsection \<open>Customer segmentation (lines 110-118) and retention (line 167)\<close>

record 'v rfm_row =
  Recency :: "int option"
  Frequency :: nat
  Monetary :: 'v
  Diversity :: "nat option"

definition day_ns :: int where
  "day_ns = 86400 * 1000000000"

definition snapshot_date :: "'v row list \<Rightarrow> timestamp option" where
  "snapshot_date df = map_option (\<lambda>t. t + day_ns) (col_max (map InvoiceDate df))"

text \<open>\<^verbatim>\<open>(a - b).days\<close>: whole days, rounded down; missing when a timestamp is.\<close>

definition days_between :: "timestamp option \<Rightarrow> timestamp option \<Rightarrow> int option" where
  "days_between a b =
     (case a of None \<Rightarrow> None
      | Some x \<Rightarrow> (case b of None \<Rightarrow> None | Some y \<Rightarrow> Some ((x - y) div day_ns)))"

text \<open>
  \<^verbatim>\<open>rfm['Diversity'] = diversity\<close> aligns the second Series on the customer index:
  a customer without an entry would get a missing cell.
\<close>

definition rfm :: "'v pandas \<Rightarrow> 'v row list \<Rightarrow> (int \<times> 'v rfm_row) list" where
  "rfm P df =
     (let snapshot = snapshot_date df;
          rfm = agg (\<lambda>g. \<lparr>Recency = days_between snapshot (col_max (map InvoiceDate g)),
                          Frequency = count (map InvoiceNo g),
                          Monetary = nansum (group_sum_revenue P) (map Revenue g),
                          Diversity = None\<rparr>) (groupby CustomerID df);
          diversity = agg (\<lambda>g. nunique (map Description g)) (groupby CustomerID df)
      in map (\<lambda>(c, v). (c, v\<lparr>Diversity := map_of diversity c\<rparr>)) rfm)"

definition repeat_customers :: "'v row list \<Rightarrow> (int \<times> nat) list" where
  "repeat_customers df = agg (\<lambda>g. nunique (map InvoiceNo g)) (groupby CustomerID df)"

subsection \<open>Basket analysis (lines 124-132)\<close>

text \<open>
  A frame of truth values with its row labels (\<open>index\<close>: invoices) and column labels
  (\<open>columns\<close>: products); \<open>cells\<close> holds one list per row.
\<close>

record basket_matrix =
  index :: "string list"
  columns :: "string list"
  cells :: "bool list list"

text \<open>The Series of line 124 before it is sorted: the summed quantity of every product.\<close>

definition product_quantities :: "'v pandas \<Rightarrow> 'v row list \<Rightarrow> (string \<times> int) list" where
  "product_quantities P df =
     agg (\<lambda>g. nansum (sum_quantity P) (map Quantity g)) (groupby Description df)"

definition top_products :: "'v pandas \<Rightarrow> 'v row list \<Rightarrow> string list" where
  "top_products P df =
     map fst (take 500 (sort_values_desc (tie_order P) (product_quantities P df)))"

text \<open>The key of a group-by on two columns: missing when either cell is.\<close>

definition key2 :: "'a option \<Rightarrow> 'b option \<Rightarrow> ('a \<times> 'b) option" where
  "key2 a b =
     (case a of None \<Rightarrow> None
      | Some x \<Rightarrow> (case b of None \<Rightarrow> None | Some y \<Rightarrow> Some (x, y)))"

text \<open>
  The order of invoice labels: by value when the column is numeric (the text of a label
  is then that of a number, read here up to a decimal point), as text otherwise.
\<close>

definition digit_value :: "char \<Rightarrow> int" where
  "digit_value c = int (of_char c) - 48"

definition int_of_str :: "string \<Rightarrow> int" where
  "int_of_str s =
     (let t = takeWhile (\<lambda>c. c \<noteq> CHR ''.'') s
      in case t of
           [] \<Rightarrow> 0
         | c # cs \<Rightarrow>
             (if c = CHR ''-'' then - foldl (\<lambda>n d. 10 * n + digit_value d) 0 cs
              else foldl (\<lambda>n d. 10 * n + digit_value d) 0 t))"

definition sort_invoices :: "bool \<Rightarrow> string list \<Rightarrow> string list" where
  "sort_invoices numeric ls = (if numeric then sort_key int_of_str ls else sort ls)"

text \<open>
  \<^verbatim>\<open>.unstack().fillna(0)\<close> spreads the Series indexed by (invoice, product) into a
  table with a row per invoice and a column per product of the Series, both sorted, 0 where
  the Series has no entry; \<^verbatim>\<open>basket > 0\<close> compares every cell. (The order of the
  Series \<open>qty\<close> itself does not show in the table.)
\<close>

definition basket :: "'v pandas \<Rightarrow> 'v row list \<Rightarrow> basket_matrix" where
  "basket P df =
     (let df_small = filter (\<lambda>r. isin (Description r) (top_products P df)) df;
          qty = agg (\<lambda>g. nansum (sum_quantity P) (map Quantity g))
                  (groupby (\<lambda>r. key2 (InvoiceNo r) (Description r)) df_small);
          idx = sort_invoices (invoice_int64 P) (remdups (map (\<lambda>((i, p), q). i) qty));
          cols = sort (remdups (map (\<lambda>((i, p), q). p) qty))
      in \<lparr>index = idx, columns = cols,
          cells = map (\<lambda>i. map (\<lambda>p. 0 < (case map_of qty (i, p) of None \<Rightarrow> 0 | Some q \<Rightarrow> q))
                               cols) idx\<rparr>)"

text \<open>Reading one entry by its labels (\<^verbatim>\<open>basket.loc[i, p]\<close>); \<open>None\<close> when a label is absent.\<close>

fun index_of :: "'a \<Rightarrow> 'a list \<Rightarrow> nat option" where
  "index_of x [] = None"
| "index_of x (y # ys) = (if x = y then Some 0 else map_option Suc (index_of x ys))"

definition basket_at :: "basket_matrix \<Rightarrow> string \<Rightarrow> string \<Rightarrow> bool option" where
  "basket_at b i p =
     (case index_of i (index b) of
        None \<Rightarrow> None
      | Some m \<Rightarrow>
          (case index_of p (columns b) of
             None \<Rightarrow> None
           | Some n \<Rightarrow> Some (cells b ! m ! n)))"

text \<open>
  The mining routines of \<^verbatim>\<open>mlxtend\<close> are not part of the script: they are parameters.
  Each takes its keyword arguments in the order of the call and either returns or raises.
\<close>

record ('fi, 'ru) mlxtend =
  apriori :: "basket_matrix \<Rightarrow> rat \<Rightarrow> bool \<Rightarrow> error + 'fi"
  fpgrowth :: "basket_matrix \<Rightarrow> rat \<Rightarrow> bool \<Rightarrow> error + 'fi"
  association_rules :: "'fi \<Rightarrow> string \<Rightarrow> rat \<Rightarrow> error + 'ru"

text \<open>The \<^verbatim>\<open>try\<close> block: only \<^verbatim>\<open>MemoryError\<close> is caught.\<close>

definition frequent_itemsets :: "('fi, 'ru) mlxtend \<Rightarrow> basket_matrix \<Rightarrow> error + 'fi" where
  "frequent_itemsets lib b =
     (case apriori lib b (2 / 100) True of
        Inr fi \<Rightarrow> Inr fi
      | Inl e \<Rightarrow> (if e = MemoryError then fpgrowth lib b (2 / 100) True else Inl e))"

definition rules :: "'v pandas \<Rightarrow> ('fi, 'ru) mlxtend \<Rightarrow> 'v row list \<Rightarrow> error + 'ru" where
  "rules P lib df =
     (case frequent_itemsets lib (basket P df) of
        Inl e \<Rightarrow> Inl e
      | Inr fi \<Rightarrow> association_rules lib fi ''lift'' 1)"

subsection \<open>Columns the report sections add to the frame (lines 64-65, 77-83, 93)\<close>

datatype choice =
  SalesPerformance | TimeSeries | CustomerSegmentation | BasketAnalysis
  | CountryLevel | PriceQuantity | FraudDetection | CustomerRetention

text \<open>Calendar fields and upper-casing come from pandas and Python: parameters.\<close>

record pylib =
  dt_day_name :: "timestamp \<Rightarrow> string"
  dt_hour :: "timestamp \<Rightarrow> int"
  dt_to_period_M :: "timestamp \<Rightarrow> int"
  str_upper :: "string \<Rightarrow> string"

text \<open>\<^verbatim>\<open>k in s\<close> for strings: \<open>k\<close> occurs in \<open>s\<close> as a contiguous piece.\<close>

fun contains :: "string \<Rightarrow> string \<Rightarrow> bool" where
  "contains k [] = (k = [])"
| "contains k (c # s) = (startswith k (c # s) \<or> contains k s)"

fun first_keyword :: "string list \<Rightarrow> string \<Rightarrow> string" where
  "first_keyword [] s = ''OTHER''"
| "first_keyword (k # ks) s = (if contains k s then k else first_keyword ks s)"

text \<open>\<^verbatim>\<open>str(desc)\<close> of a missing cell is the text \<^verbatim>\<open>nan\<close>, as with \<^verbatim>\<open>astype\<close>.\<close>

definition get_category :: "(string \<Rightarrow> string) \<Rightarrow> string option \<Rightarrow> string" where
  "get_category upper desc =
     first_keyword [''HOLDER'', ''SET'', ''CUP'', ''BOTTLE'', ''LANTERN'', ''HEART'']
       (upper (astype_str desc))"

record 'v sales_row = "'v row" +
  DayOfWeek :: "string option"
  Hour :: "int option"
  Category :: string

record 'v month_row = "'v row" +
  Month :: "int option"

definition add_sales_columns :: "pylib \<Rightarrow> 'v row \<Rightarrow> 'v sales_row" where
  "add_sales_columns lib r =
     row.extend r
       \<lparr>DayOfWeek = map_option (dt_day_name lib) (InvoiceDate r),
        Hour = map_option (dt_hour lib) (InvoiceDate r),
        Category = get_category (str_upper lib) (Description r)\<rparr>"

definition add_month_column :: "pylib \<Rightarrow> 'v row \<Rightarrow> 'v month_row" where
  "add_month_column lib r =
     row.extend r \<lparr>Month = map_option (dt_to_period_M lib) (InvoiceDate r)\<rparr>"

text \<open>
  The frame \<^verbatim>\<open>df\<close> once the chosen section has run. Two sections assign new columns
  to \<^verbatim>\<open>df\<close>; the other six only read it (the retention section adds its columns to
  the sorted copy \<^verbatim>\<open>df_sorted\<close>, the segmentation section to \<^verbatim>\<open>rfm\<close>).
\<close>

datatype 'v dataframe =
  Loaded "'v row list" | WithSalesColumns "'v sales_row list" | WithMonth "'v month_row list"

fun run_section :: "pylib \<Rightarrow> choice \<Rightarrow> 'v row list \<Rightarrow> 'v dataframe" where
  "run_section lib SalesPerformance df = WithSalesColumns (map (add_sales_columns lib) df)"
| "run_section lib TimeSeries df = WithMonth (map (add_month_column lib) df)"
| "run_section lib CustomerSegmentation df = Loaded df"
| "run_section lib BasketAnalysis df = Loaded df"
| "run_section lib CountryLevel df = Loaded df"
| "run_section lib PriceQuantity df = Loaded df"
| "run_section lib FraudDetection df = Loaded df"
| "run_section lib CustomerRetention df = Loaded df"

text \<open>The nine columns \<^verbatim>\<open>load_data\<close> produced, read back from a frame.\<close>

fun loader_columns :: "'v dataframe \<Rightarrow> 'v row list" where
  "loader_columns (Loaded df) = df"
| "loader_columns (WithSalesColumns df) = map row.truncate df"
| "loader_columns (WithMonth df) = map row.truncate df"

subsection \<open>One run of the script\<close>

text \<open>
  A run loads the frame (line 24) and then executes the chosen section. As far as failure
  goes, its outcome is the error that ended it, or the frame \<^verbatim>\<open>df\<close> it leaves. The
  library calls that can fail in this model are the date parser inside \<open>load_data\<close> and
  the three mining routines of the basket section; the script has a single
  \<^verbatim>\<open>try\<close> block, the one in \<open>frequent_itemsets\<close>, so every other error ends the run.
\<close>

definition dashboard ::
  "(string \<Rightarrow> timestamp option) \<Rightarrow> 'v pandas \<Rightarrow> ('fi, 'ru) mlxtend \<Rightarrow> pylib \<Rightarrow> choice
     \<Rightarrow> string transaction list \<Rightarrow> error + 'v dataframe" where
  "dashboard parse P lib py c csv =
     (case load_data parse P csv of
        Inl e \<Rightarrow> Inl e
      | Inr df \<Rightarrow>
          (if c = BasketAnalysis
           then (case rules P lib df of
                   Inl e \<Rightarrow> Inl e
                 | Inr ru \<Rightarrow> Inr (run_section py c df))
           else Inr (run_section py c df)))"

section \<open>Example data\<close>

text \<open>
  A small file with whole-number prices, so that both numeric columns are \<^verbatim>\<open>int64\<close>:
  one cancellation, one row without customer (whose date does not parse), three rows that
  are kept.
\<close>

definition ex_parse :: "string \<Rightarrow> timestamp option" where
  "ex_parse s =
     (if s = ''12/1/2010 8:26'' then Some 1291191960000000000
      else if s = ''12/1/2010 8:45'' then Some 1291193100000000000
      else None)"

definition ex_csv :: "string transaction list" where
  "ex_csv =
     [\<lparr>InvoiceNo = Some ''536365'', StockCode = Some ''85123A'',
       Description = Some ''HEART HOLDER'', Quantity = Some 6,
       InvoiceDate = Some ''12/1/2010 8:26'', UnitPrice = Some 3,
       CustomerID = Some 17850, Country = Some ''United Kingdom''\<rparr>,
      \<lparr>InvoiceNo = Some ''C536379'', StockCode = Some ''D'',
       Description = Some ''Discount'', Quantity = Some (- 1),
       InvoiceDate = Some ''12/1/2010 8:26'', UnitPrice = Some 28,
       CustomerID = Some 14527, Country = Some ''United Kingdom''\<rparr>,
      \<lparr>InvoiceNo = Some ''536414'', StockCode = Some ''22139'',
       Description = None, Quantity = Some 56,
       InvoiceDate = Some ''no date'', UnitPrice = Some 0,
       CustomerID = None, Country = Some ''United Kingdom''\<rparr>,
      \<lparr>InvoiceNo = Some ''536365'', StockCode = Some ''71053'',
       Description = Some ''METAL LANTERN'', Quantity = Some 6,
       InvoiceDate = Some ''12/1/2010 8:26'', UnitPrice = Some 4,
       CustomerID = Some 17850, Country = Some ''United Kingdom''\<rparr>,
      \<lparr>InvoiceNo = Some ''536370'', StockCode = Some ''22728'',
       Description = Some ''ALARM CLOCK'', Quantity = Some 24,
       InvoiceDate = Some ''12/1/2010 8:45'', UnitPrice = Some 0,
       CustomerID = Some 12583, Country = Some ''France''\<rparr>]"

definition ex_df :: "int row list" where
  "ex_df =
     [\<lparr>InvoiceNo = Some ''536365'', StockCode = Some ''85123A'',
       Description = Some ''HEART HOLDER'', Quantity = Some 6,
       InvoiceDate = Some 1291191960000000000, UnitPrice = Some 3,
       CustomerID = Some 17850, Country = Some ''United Kingdom'',
       Revenue = Some 18\<rparr>,
      \<lparr>InvoiceNo = Some ''536365'', StockCode = Some ''71053'',
       Description = Some ''METAL LANTERN'', Quantity = Some 6,
       InvoiceDate = Some 1291191960000000000, UnitPrice = Some 4,
       CustomerID = Some 17850, Country = Some ''United Kingdom'',
       Revenue = Some 24\<rparr>,
      \<lparr>InvoiceNo = Some ''536370'', StockCode = Some ''22728'',
       Description = Some ''ALARM CLOCK'', Quantity = Some 24,
       InvoiceDate = Some 1291193100000000000, UnitPrice = Some 0,
       CustomerID = Some 12583, Country = Some ''France'',
       Revenue = Some 0\<rparr>]"

text \<open>The same arithmetic for a file whose invoice numbers are all numbers.\<close>

definition int64_num_lib :: "int pandas" where
  "int64_num_lib = int64_lib\<lparr>invoice_int64 := True\<rparr>"

definition nocountry_csv :: "string transaction list" where
  "nocountry_csv =
     [\<lparr>InvoiceNo = Some ''536367'', StockCode = Some ''84879'',
       Description = Some ''BIRD ORNAMENT'', Quantity = Some 2,
       InvoiceDate = Some ''12/1/2010 8:26'', UnitPrice = Some 5,
       CustomerID = Some 13047, Country = None\<rparr>]"

definition nocountry_df :: "int row list" where
  "nocountry_df =
     [\<lparr>InvoiceNo = Some ''536367'', StockCode = Some ''84879'',
       Description = Some ''BIRD ORNAMENT'', Quantity = Some 2,
       InvoiceDate = Some 1291191960000000000, UnitPrice = Some 5,
       CustomerID = Some 13047, Country = None, Revenue = Some 10\<rparr>]"

text \<open>A row whose product does not fit in 64 bits: \<open>2 ^ 62\<close> pieces at 4 each.\<close>

definition overflow_csv :: "string transaction list" where
  "overflow_csv =
     [\<lparr>InvoiceNo = Some ''536368'', StockCode = Some ''22960'',
       Description = Some ''JAM MAKING SET'', Quantity = Some 4611686018427387904,
       InvoiceDate = Some ''12/1/2010 8:26'', UnitPrice = Some 4,
       CustomerID = Some 13047, Country = Some ''United Kingdom''\<rparr>]"

definition overflow_df :: "int row list" where
  "overflow_df =
     [\<lparr>InvoiceNo = Some ''536368'', StockCode = Some ''22960'',
       Description = Some ''JAM MAKING SET'', Quantity = Some 4611686018427387904,
       InvoiceDate = Some 1291191960000000000, UnitPrice = Some 4,
       CustomerID = Some 13047, Country = Some ''United Kingdom'', Revenue = Some 0\<rparr>]"

text \<open>
  Stand-ins for the library parameters, used to run the functions on the example data: a
  mining library whose \<^verbatim>\<open>apriori\<close> runs out of memory, and calendar functions that
  read the hour off a nanosecond timestamp.
\<close>

definition oom_lib :: "((string list \<times> rat) list, (string list \<times> string list) list) mlxtend" where
  "oom_lib =
     \<lparr>apriori = (\<lambda>b s u. Inl MemoryError),
      fpgrowth = (\<lambda>b s u. Inr (map (\<lambda>p. ([p], s)) (columns b))),
      association_rules = (\<lambda>fi m t. Inr [])\<rparr>"

definition ex_pylib :: pylib where
  "ex_pylib =
     \<lparr>dt_day_name = (\<lambda>t. ''Wednesday''),
      dt_hour = (\<lambda>t. (t div 3600000000000) mod 24),
      dt_to_period_M = (\<lambda>t. 491),
      str_upper = (\<lambda>s. s)\<rparr>"

definition noinvoice_csv :: "string transaction list" where
  "noinvoice_csv =
     [\<lparr>InvoiceNo = None, StockCode = Some ''84879'',
       Description = Some ''BIRD ORNAMENT'', Quantity = Some 2,
       InvoiceDate = Some ''12/1/2010 8:26'', UnitPrice = Some 5,
       CustomerID = Some 13047, Country = Some ''United Kingdom''\<rparr>]"

definition noinvoice_df :: "int row list" where
  "noinvoice_df =
     [\<lparr>InvoiceNo = None, StockCode = Some ''84879'',
       Description = Some ''BIRD ORNAMENT'', Quantity = Some 2,
       InvoiceDate = Some 1291191960000000000, UnitPrice = Some 5,
       CustomerID = Some 13047, Country = Some ''United Kingdom'', Revenue = Some 10\<rparr>]"

text \<open>
  A file of 501 rows of one invoice, each with a product of its own (named by a run of
  1 to 501 letters A): 500 products bought twice, the last one once.
\<close>

definition product :: "nat \<Rightarrow> string" where
  "product n = replicate (Suc n) (CHR ''A'')"

definition big_csv_row :: "nat \<Rightarrow> string transaction" where
  "big_csv_row n =
     \<lparr>InvoiceNo = Some ''536365'', StockCode = None, Description = Some (product n),
      Quantity = Some (if n < 500 then 2 else 1), InvoiceDate = Some ''12/1/2010 8:26'',
      UnitPrice = Some 1, CustomerID = Some 17850, Country = Some ''United Kingdom''\<rparr>"

definition big_row :: "nat \<Rightarrow> int row" where
  "big_row n =
     \<lparr>InvoiceNo = Some ''536365'', StockCode = None, Description = Some (product n),
      Quantity = Some (if n < 500 then 2 else 1), InvoiceDate = Some 1291191960000000000,
      UnitPrice = Some 1, CustomerID = Some 17850, Country = Some ''United Kingdom'',
      Revenue = Some (if n < 500 then 2 else 1)\<rparr>"

definition big_csv :: "string transaction list" where
  "big_csv = map big_csv_row [0..<501]"

definition big_df :: "int row list" where
  "big_df = map big_row [0..<501]"

text \<open>A file whose only row is kept by the loader and has a date that does not parse.\<close>

definition baddate_csv :: "string transaction list" where
  "baddate_csv =
     [\<lparr>InvoiceNo = Some ''536367'', StockCode = Some ''84879'',
       Description = Some ''BIRD ORNAMENT'', Quantity = Some 2,
       InvoiceDate = Some ''yesterday'', UnitPrice = Some 5,
       CustomerID = Some 13047, Country = Some ''United Kingdom''\<rparr>]"

section \<open>Properties\<close>

subsection \<open>The loader\<close>

lemmas cell_defs =
  astype_str_def startswith_def gt0_def le0_def mul_cells_def with_date_def add_revenue_def

lemma wrap64_id: "- (2 ^ 63) \<le> n \<Longrightarrow> n < 2 ^ 63 \<Longrightarrow> wrap64 n = n"
  by (simp add: wrap64_def)

lemma multiply_int64: "multiply int64_lib q (of_int n) = Some (wrap64 (q * n))"
  by (simp add: int64_lib_def)

lemma multiply_int64_num: "multiply int64_num_lib = multiply int64_lib"
  by (simp add: int64_num_lib_def)

lemma load_ex: "load_data ex_parse int64_lib ex_csv = Inr ex_df"
  by (simp add: load_data_def ex_csv_def ex_df_def ex_parse_def cell_defs int64_lib_def
      wrap64_def)

lemma to_datetime_length:
  "to_datetime parse cs = Inr ts \<Longrightarrow> length ts = length cs"
  by (induction parse cs arbitrary: ts rule: to_datetime.induct)
     (auto split: sum.splits option.splits)

lemma to_datetime_Inl:
  "to_datetime parse cs = Inl e \<longleftrightarrow>
     e = DateParseError \<and> (\<exists>s. Some s \<in> set cs \<and> parse s = None)"
  by (induction parse cs rule: to_datetime.induct)
     (auto split: sum.splits option.splits)

lemma load_data_Inl:
  "load_data parse P csv = Inl e \<longleftrightarrow>
     e = DateParseError
     \<and> (\<exists>r \<in> set csv. CustomerID r \<noteq> None \<and> \<not> startswith ''C'' (astype_str (InvoiceNo r))
          \<and> gt0 (Quantity r) \<and> (\<exists>s. InvoiceDate r = Some s \<and> parse s = None))"
proof -
  let ?kept = "filter (\<lambda>r. gt0 (Quantity r))
      (filter (\<lambda>r. \<not> startswith ''C'' (astype_str (InvoiceNo r)))
        (filter (\<lambda>r. CustomerID r \<noteq> None) csv))"
  have "load_data parse P csv = Inl e \<longleftrightarrow> to_datetime parse (map InvoiceDate ?kept) = Inl e"
    by (simp add: load_data_def Let_def split: sum.splits)
  also have "\<dots> \<longleftrightarrow> e = DateParseError
      \<and> (\<exists>s. Some s \<in> set (map InvoiceDate ?kept) \<and> parse s = None)"
    by (rule to_datetime_Inl)
  also have "(\<exists>s. Some s \<in> set (map InvoiceDate ?kept) \<and> parse s = None)
      \<longleftrightarrow> (\<exists>r \<in> set csv. CustomerID r \<noteq> None \<and> \<not> startswith ''C'' (astype_str (InvoiceNo r))
          \<and> gt0 (Quantity r) \<and> (\<exists>s. InvoiceDate r = Some s \<and> parse s = None))"
    by (simp add: image_iff) (metis (no_types, lifting))
  finally show ?thesis .
qed

lemma load_data_rows:
  assumes "load_data parse P csv = Inr df" and "r \<in> set df"
  shows "\<exists>r0 t. r = add_revenue P (with_date r0 t) \<and> r0 \<in> set csv \<and> CustomerID r0 \<noteq> None
           \<and> \<not> startswith ''C'' (astype_str (InvoiceNo r0)) \<and> gt0 (Quantity r0)"
proof -
  let ?kept = "filter (\<lambda>r. gt0 (Quantity r))
      (filter (\<lambda>r. \<not> startswith ''C'' (astype_str (InvoiceNo r)))
        (filter (\<lambda>r. CustomerID r \<noteq> None) csv))"
  from assms(1) obtain dates where
    df: "df = map (add_revenue P) (map2 with_date ?kept dates)"
    by (auto simp: load_data_def Let_def split: sum.splits)
  from assms(2) df obtain r0 t where "(r0, t) \<in> set (zip ?kept dates)"
    and r: "r = add_revenue P (with_date r0 t)"
    by auto
  then have "r0 \<in> set ?kept" by (auto dest: set_zip_leftD)
  with r show ?thesis by auto
qed

lemma loaded_quantity:
  assumes "load_data parse P csv = Inr df" and "r \<in> set df"
  shows "\<exists>q. Quantity r = Some q \<and> 0 < q"
proof -
  from load_data_rows [OF assms] obtain r0 t where
    "r = add_revenue P (with_date r0 t)" and "gt0 (Quantity r0)" by blast
  then show ?thesis
    by (cases "Quantity r0") (simp_all add: gt0_def add_revenue_def with_date_def)
qed

text \<open>
  C1. After \<open>load_data\<close> has returned a frame, every row of it has a customer
  identifier, a strictly positive quantity, and an invoice identifier whose text does not
  start with the letter C (a missing invoice identifier reads \<^verbatim>\<open>nan\<close>).
\<close>

theorem load_data_cleaning_invariant:
  assumes "load_data parse P csv = Inr df" and "r \<in> set df"
  shows "(\<exists>c. CustomerID r = Some c) \<and> (\<exists>q. Quantity r = Some q \<and> 0 < q)
         \<and> \<not> startswith ''C'' (astype_str (InvoiceNo r))
         \<and> \<not> (\<exists>s. InvoiceNo r = Some (CHR ''C'' # s))"
proof -
  from load_data_rows [OF assms] obtain r0 t where
    r: "r = add_revenue P (with_date r0 t)" and c: "CustomerID r0 \<noteq> None"
    and i: "\<not> startswith ''C'' (astype_str (InvoiceNo r0))" by blast
  from r c have "\<exists>c. CustomerID r = Some c"
    by (simp add: add_revenue_def with_date_def)
  moreover from r i have n: "\<not> startswith ''C'' (astype_str (InvoiceNo r))"
    by (simp add: add_revenue_def with_date_def)
  moreover from n have "\<not> (\<exists>s. InvoiceNo r = Some (CHR ''C'' # s))"
    by (auto simp: startswith_def astype_str_def)
  ultimately show ?thesis using loaded_quantity [OF assms] by blast
qed

theorem load_data_cleaning_invariant_witness:
  "load_data ex_parse int64_lib ex_csv = Inr ex_df \<and> hd ex_df \<in> set ex_df
   \<and> CustomerID (hd ex_df) = Some 17850 \<and> Quantity (hd ex_df) = Some 6
   \<and> \<not> startswith ''C'' (astype_str (InvoiceNo (hd ex_df)))
   \<and> length ex_csv = 5 \<and> length ex_df = 3"
proof -
  have m: "hd ex_df \<in> set ex_df" by (simp add: ex_df_def)
  from load_data_cleaning_invariant [OF load_ex m] load_ex m show ?thesis
    by (simp add: ex_df_def ex_csv_def)
qed

lemma load_overflow: "load_data ex_parse int64_num_lib overflow_csv = Inr overflow_df"
  by (simp add: load_data_def overflow_csv_def overflow_df_def ex_parse_def cell_defs
      int64_num_lib_def int64_lib_def wrap64_def)

text \<open>
  C2. In the frame \<open>load_data\<close> returns, the revenue of every row is the product of its
  quantity and its unit price as the library computes it in the number type of the two
  columns (missing exactly when the unit price is missing, the quantity being present).
  For two \<^verbatim>\<open>int64\<close> columns that product is taken modulo \<open>2 ^ 64\<close>: it is the exact
  product whenever the exact product fits in 64 bits.
\<close>

theorem revenue_is_quantity_times_price:
  assumes "load_data parse P csv = Inr df" and "r \<in> set df"
  shows "Revenue r = mul_cells (multiply P) (Quantity r) (UnitPrice r)
         \<and> (\<exists>q. Quantity r = Some q
              \<and> Revenue r = (case UnitPrice r of None \<Rightarrow> None | Some p \<Rightarrow> multiply P q p))
         \<and> (\<forall>q n. multiply int64_lib q (of_int n) = Some (wrap64 (q * n)))
         \<and> (\<forall>q n. - (2 ^ 63) \<le> q * n \<and> q * n < 2 ^ 63 \<longrightarrow>
               multiply int64_lib q (of_int n) = Some (q * n))"
proof -
  from load_data_rows [OF assms] obtain r0 t where
    r: "r = add_revenue P (with_date r0 t)" by blast
  then have e: "Revenue r = mul_cells (multiply P) (Quantity r) (UnitPrice r)"
    by (simp add: add_revenue_def with_date_def)
  from loaded_quantity [OF assms] obtain q where q: "Quantity r = Some q" by blast
  with e have "Revenue r = (case UnitPrice r of None \<Rightarrow> None | Some p \<Rightarrow> multiply P q p)"
    by (simp add: mul_cells_def)
  with e q show ?thesis
    by (auto simp: multiply_int64 wrap64_id)
qed

theorem revenue_is_quantity_times_price_witness:
  "load_data ex_parse int64_lib ex_csv = Inr ex_df \<and> hd ex_df \<in> set ex_df
   \<and> Quantity (hd ex_df) = Some 6 \<and> UnitPrice (hd ex_df) = Some 3
   \<and> Revenue (hd ex_df) = Some 18
   \<and> - (2 ^ 63) \<le> (6::int) * 3 \<and> (6::int) * 3 < 2 ^ 63
   \<and> multiply int64_lib 6 3 = Some 18"
proof -
  have m: "hd ex_df \<in> set ex_df" by (simp add: ex_df_def)
  from revenue_is_quantity_times_price [OF load_ex m] load_ex m show ?thesis
    by (simp add: ex_df_def int64_lib_def wrap64_def)
qed

text \<open>
  A cleaned frame with \<open>2 ^ 62\<close> pieces at a unit price of 4, both columns \<^verbatim>\<open>int64\<close>:
  the revenue is 0, the product of quantity and unit price is \<open>2 ^ 64\<close>.
\<close>

theorem revenue_is_quantity_times_price_counterexample:
  "load_data ex_parse int64_num_lib overflow_csv = Inr overflow_df
   \<and> Quantity (hd overflow_df) = Some (2 ^ 62)
   \<and> UnitPrice (hd overflow_df) = Some 4
   \<and> Revenue (hd overflow_df) = Some 0
   \<and> Revenue (hd overflow_df) \<noteq> Some (2 ^ 62 * 4)"
  using load_overflow by (simp add: overflow_df_def)

subsection \<open>Group-by and sums\<close>

lemma set_map_filter: "set (List.map_filter f xs) = {y. \<exists>x \<in> set xs. f x = Some y}"
  by (induction xs) (auto split: option.splits)

lemma set_group_keys: "set (group_keys key df) = {k. \<exists>r \<in> set df. key r = Some k}"
  by (auto simp: group_keys_def set_map_filter)

lemma distinct_group_keys: "distinct (group_keys key df)"
  by (simp add: group_keys_def)

lemma map_fst_groupby: "map fst (groupby key df) = group_keys key df"
  by (simp add: groupby_def comp_def)

lemma map_fst_agg: "map fst (agg f gs) = map fst gs"
  by (simp add: agg_def case_prod_unfold comp_def)

lemma agg_groupby:
  "agg f (groupby key df) = map (\<lambda>k. (k, f (filter (\<lambda>r. key r = Some k) df))) (group_keys key df)"
  by (simp add: agg_def groupby_def)

lemma mset_sort_values_desc: "mset (sort_values_desc tie s) = mset s"
  by (simp add: sort_values_desc_def)

lemma set_sort_values_desc: "set (sort_values_desc tie s) = set s"
  by (simp add: sort_values_desc_def)

lemma map_filter_id_map: "List.map_filter id (map f xs) = List.map_filter f xs"
  by (induction xs) (simp_all split: option.splits)

lemma nansum_map: "nansum s (map f xs) = s (List.map_filter f xs)"
  by (simp add: nansum_def map_filter_id_map)

lemma mset_map_filter_split:
  "mset (List.map_filter f (filter P df)) + mset (List.map_filter f (filter (\<lambda>r. \<not> P r \<and> Q r) df))
   = mset (List.map_filter f (filter (\<lambda>r. P r \<or> Q r) df))"
  by (induction df) (auto split: option.splits)

lemma mset_groups:
  "distinct ks \<Longrightarrow>
   mset (concat (map (\<lambda>k. List.map_filter f (filter (\<lambda>r. key r = Some k) df)) ks))
   = mset (List.map_filter f (filter (\<lambda>r. \<exists>k \<in> set ks. key r = Some k) df))"
proof (induction ks)
  case Nil
  then show ?case by simp
next
  case (Cons k ks)
  have same: "(\<lambda>r. key r \<noteq> Some k \<and> (\<exists>j \<in> set ks. key r = Some j))
              = (\<lambda>r. \<exists>j \<in> set ks. key r = Some j)"
    using Cons.prems by auto
  have "mset (concat (map (\<lambda>k. List.map_filter f (filter (\<lambda>r. key r = Some k) df)) (k # ks)))
        = mset (List.map_filter f (filter (\<lambda>r. key r = Some k) df))
          + mset (List.map_filter f (filter (\<lambda>r. \<exists>j \<in> set ks. key r = Some j) df))"
    using Cons by simp
  also have "\<dots> = mset (List.map_filter f
      (filter (\<lambda>r. key r = Some k \<or> (\<exists>j \<in> set ks. key r = Some j)) df))"
    using mset_map_filter_split [of f "\<lambda>r. key r = Some k" df "\<lambda>r. \<exists>j \<in> set ks. key r = Some j"]
    by (simp add: same)
  finally show ?case by simp
qed

lemma in_some_group: "(\<exists>k \<in> set (group_keys key df). key r = Some k) = (key r \<noteq> None)"
  if "r \<in> set df"
  using that by (auto simp: set_group_keys)

lemma mset_all_groups:
  "mset (concat (map (\<lambda>k. List.map_filter f (filter (\<lambda>r. key r = Some k) df)) (group_keys key df)))
   = mset (List.map_filter f (filter (\<lambda>r. key r \<noteq> None) df))"
proof -
  have "filter (\<lambda>r. \<exists>k \<in> set (group_keys key df). key r = Some k) df
        = filter (\<lambda>r. key r \<noteq> None) df"
    by (rule filter_cong [OF refl]) (rule in_some_group)
  with mset_groups [where ks = "group_keys key df" and f = f and key = key and df = df]
  show ?thesis by (simp add: distinct_group_keys)
qed

lemma wrap64_add_left: "wrap64 (wrap64 a + b) = wrap64 (a + b)"
proof -
  define h :: int where "h = 2 ^ 63"
  define m :: int where "m = 2 ^ 64"
  have w: "wrap64 n = (n + h) mod m - h" for n
    by (simp add: wrap64_def h_def m_def)
  have "((a + h) mod m - h + b + h) mod m = ((a + h) mod m + b) mod m"
    by (simp add: algebra_simps)
  also have "\<dots> = (a + h + b) mod m"
    by (rule mod_add_left_eq)
  also have "\<dots> = (a + b + h) mod m"
    by (simp add: algebra_simps)
  finally show ?thesis
    by (simp only: w)
qed

lemma wrap64_sum_groups:
  "wrap64 (sum_list (map (\<lambda>xs. wrap64 (sum_list xs)) xss)) = wrap64 (sum_list (concat xss))"
proof (induction xss)
  case Nil
  then show ?case by simp
next
  case (Cons xs xss)
  let ?rest = "sum_list (map (\<lambda>xs. wrap64 (sum_list xs)) xss)"
  have "wrap64 (wrap64 (sum_list xs) + ?rest) = wrap64 (sum_list xs + ?rest)"
    by (rule wrap64_add_left)
  also have "\<dots> = wrap64 (?rest + sum_list xs)"
    by (simp only: add.commute)
  also have "\<dots> = wrap64 (wrap64 ?rest + sum_list xs)"
    by (simp only: wrap64_add_left)
  also have "\<dots> = wrap64 (wrap64 (sum_list (concat xss)) + sum_list xs)"
    by (simp only: Cons.IH)
  also have "\<dots> = wrap64 (sum_list (concat xss) + sum_list xs)"
    by (rule wrap64_add_left)
  also have "\<dots> = wrap64 (sum_list xs + sum_list (concat xss))"
    by (simp only: add.commute)
  finally show ?case by simp
qed

lemma sum_list_mset_cong: "sum_list xs = sum_list ys" if "mset xs = mset ys"
  for xs ys :: "int list"
proof -
  have "sum_mset (mset xs) = sum_mset (mset ys)" using that by simp
  then show ?thesis by (simp only: sum_mset_sum_list)
qed

lemma sums_regroup_int64: "sums_regroup int64_lib"
  unfolding sums_regroup_def
proof (intro conjI allI impI)
  fix xs ys :: "int list"
  assume "mset xs = mset ys"
  then show "sum_revenue int64_lib xs = sum_revenue int64_lib ys"
    by (simp add: int64_lib_def sum_list_mset_cong [of xs ys])
next
  fix xss :: "int list list"
  show "sum_revenue int64_lib (map (group_sum_revenue int64_lib) xss)
        = sum_revenue int64_lib (concat xss)"
    by (simp add: int64_lib_def wrap64_sum_groups)
qed

lemma country_sales_entries:
  "mset (country_sales P df)
   = mset (map (\<lambda>c. (c, group_sum_revenue P
        (List.map_filter Revenue (filter (\<lambda>r. Country r = Some c) df)))) (group_keys Country df))"
  by (simp add: country_sales_def mset_sort_values_desc agg_groupby nansum_map)

lemma country_sales_total:
  assumes "sums_regroup P"
  shows "sum_revenue P (map snd (country_sales P df))
         = total_revenue P (filter (\<lambda>r. Country r \<noteq> None) df)"
proof -
  let ?cells = "\<lambda>c. List.map_filter Revenue (filter (\<lambda>r. Country r = Some c) df)"
  from assms have perm: "sum_revenue P xs = sum_revenue P ys" if "mset xs = mset ys" for xs ys
    using that unfolding sums_regroup_def by blast
  from assms have regroup:
    "sum_revenue P (map (group_sum_revenue P) xss) = sum_revenue P (concat xss)" for xss
    unfolding sums_regroup_def by blast
  have "mset (map snd (country_sales P df))
        = mset (map (group_sum_revenue P) (map ?cells (group_keys Country df)))"
    using arg_cong [OF country_sales_entries [of P df], of "image_mset snd"]
    by (simp add: multiset.map_comp comp_def flip: mset_map)
  then have "sum_revenue P (map snd (country_sales P df))
             = sum_revenue P (map (group_sum_revenue P) (map ?cells (group_keys Country df)))"
    by (rule perm)
  also have "\<dots> = sum_revenue P (concat (map ?cells (group_keys Country df)))"
    by (rule regroup)
  also have "\<dots> = sum_revenue P (List.map_filter Revenue (filter (\<lambda>r. Country r \<noteq> None) df))"
    by (rule perm) (rule mset_all_groups)
  finally show ?thesis
    by (simp add: total_revenue_def nansum_map)
qed

lemma load_nocountry: "load_data ex_parse int64_num_lib nocountry_csv = Inr nocountry_df"
  by (simp add: load_data_def nocountry_csv_def nocountry_df_def ex_parse_def cell_defs
      int64_num_lib_def int64_lib_def wrap64_def)

text \<open>
  C3. Grouping by country partitions the rows that have a country: \<open>country_sales\<close> has
  one entry for each country of the frame, the library's sum of the revenues of exactly
  the rows of that country, and a row whose country is missing is in no group. When the
  library's sums depend neither on order nor on grouping (as for an \<^verbatim>\<open>int64\<close> revenue
  column), the entries add up to the total revenue of the rows that have a country, hence
  to the total revenue of the frame when no row lacks a country.
\<close>

theorem country_sales_sum:
  "distinct (map fst (country_sales P df))
   \<and> set (country_sales P df)
       = (\<lambda>c. (c, nansum (group_sum_revenue P) (map Revenue (filter (\<lambda>r. Country r = Some c) df))))
           ` {c. \<exists>r \<in> set df. Country r = Some c}
   \<and> (sums_regroup P \<longrightarrow>
        sum_revenue P (map snd (country_sales P df))
        = total_revenue P (filter (\<lambda>r. Country r \<noteq> None) df))
   \<and> (sums_regroup P \<and> (\<forall>r \<in> set df. Country r \<noteq> None) \<longrightarrow>
        sum_revenue P (map snd (country_sales P df)) = total_revenue P df)"
proof -
  have "mset (map fst (country_sales P df))
        = mset (map fst (agg (\<lambda>g. nansum (group_sum_revenue P) (map Revenue g))
            (groupby Country df)))"
    by (simp add: country_sales_def mset_sort_values_desc)
  also have "\<dots> = mset (group_keys Country df)"
    by (simp only: map_fst_agg map_fst_groupby)
  finally have "mset (map fst (country_sales P df)) = mset (group_keys Country df)" .
  then have d: "distinct (map fst (country_sales P df))"
    using distinct_group_keys [of Country df] mset_eq_imp_distinct_iff by blast
  have s: "set (country_sales P df)
       = (\<lambda>c. (c, nansum (group_sum_revenue P) (map Revenue (filter (\<lambda>r. Country r = Some c) df))))
           ` {c. \<exists>r \<in> set df. Country r = Some c}"
    using arg_cong [OF country_sales_entries [of P df], of set_mset]
    by (simp add: set_group_keys nansum_map)
  have "filter (\<lambda>r. Country r \<noteq> None) df = df" if "\<forall>r \<in> set df. Country r \<noteq> None"
    using that by (simp add: filter_id_conv)
  with d s country_sales_total [of P df] show ?thesis by simp
qed

theorem country_sales_sum_witness:
  "load_data ex_parse int64_lib ex_csv = Inr ex_df
   \<and> sums_regroup int64_lib \<and> list_all (\<lambda>r. Country r \<noteq> None) ex_df
   \<and> country_sales int64_lib ex_df = [(''United Kingdom'', 42), (''France'', 0)]
   \<and> total_revenue int64_lib ex_df = 42
   \<and> sum_revenue int64_lib (map snd (country_sales int64_lib ex_df))
       = total_revenue int64_lib ex_df"
proof -
  have a: "\<forall>r \<in> set ex_df. Country r \<noteq> None" by (simp add: ex_df_def)
  have c: "country_sales int64_lib ex_df = [(''United Kingdom'', 42), (''France'', 0)]"
    by code_simp
  have t: "total_revenue int64_lib ex_df = 42"
    by code_simp
  note sum_eq = country_sales_sum [where P = int64_lib and df = ex_df,
      THEN conjunct2, THEN conjunct2, THEN conjunct2]
  from sum_eq sums_regroup_int64 a
  have "sum_revenue int64_lib (map snd (country_sales int64_lib ex_df))
        = total_revenue int64_lib ex_df"
    by blast
  moreover have "list_all (\<lambda>r. Country r \<noteq> None) ex_df"
    using a by (simp only: list_all_iff)
  ultimately show ?thesis
    using load_ex c t sums_regroup_int64 by blast
qed

text \<open>
  A cleaned frame with one row whose country is missing: no country group, total revenue 10.
\<close>

theorem country_sales_sum_counterexample:
  "load_data ex_parse int64_num_lib nocountry_csv = Inr nocountry_df
   \<and> country_sales int64_num_lib nocountry_df = []
   \<and> sum_revenue int64_num_lib (map snd (country_sales int64_num_lib nocountry_df)) = 0
   \<and> total_revenue int64_num_lib nocountry_df = 10"
proof -
  have c: "country_sales int64_num_lib nocountry_df = []"
    by code_simp
  have t: "total_revenue int64_num_lib nocountry_df = 10"
    by code_simp
  have z: "sum_revenue int64_num_lib [] = 0"
    by code_simp
  from load_nocountry c t z show ?thesis by simp
qed

subsection \<open>Fraud view\<close>

text \<open>
  C9. On the frame \<open>load_data\<close> returns, no row satisfies the test on a non-positive
  quantity, so the fraud view is exactly the rows whose unit price is present and at most 0.
\<close>

theorem fraud_is_nonpositive_price:
  assumes "load_data parse P csv = Inr df"
  shows "(\<forall>r \<in> set df. \<not> le0 (Quantity r))
         \<and> fraud df = filter (\<lambda>r. le0 (UnitPrice r)) df
         \<and> set (fraud df) = {r \<in> set df. \<exists>p. UnitPrice r = Some p \<and> p \<le> 0}"
proof -
  have q: "\<not> le0 (Quantity r)" if "r \<in> set df" for r
    using loaded_quantity [OF assms that] by (auto simp: le0_def)
  then have f: "fraud df = filter (\<lambda>r. le0 (UnitPrice r)) df"
    unfolding fraud_def by (intro filter_cong) auto
  have "le0 (UnitPrice r) = (\<exists>p. UnitPrice r = Some p \<and> p \<le> 0)" for r :: "'a row"
    by (cases "UnitPrice r") (simp_all add: le0_def)
  with f have "set (fraud df) = {r \<in> set df. \<exists>p. UnitPrice r = Some p \<and> p \<le> 0}"
    by auto
  with q f show ?thesis by blast
qed

theorem fraud_is_nonpositive_price_witness:
  "load_data ex_parse int64_lib ex_csv = Inr ex_df
   \<and> list_all (\<lambda>r. \<not> le0 (Quantity r)) ex_df
   \<and> fraud ex_df = [ex_df ! 2] \<and> UnitPrice (ex_df ! 2) = Some 0
   \<and> fraud ex_df = filter (\<lambda>r. le0 (UnitPrice r)) ex_df"
proof -
  have "fraud ex_df = [ex_df ! 2]" "UnitPrice (ex_df ! 2) = Some 0"
    by (simp_all add: fraud_def ex_df_def le0_def)
  with fraud_is_nonpositive_price [OF load_ex] load_ex show ?thesis
    by (simp add: list_all_iff)
qed

subsection \<open>Errors: the fallback and nothing else\<close>

text \<open>
  What \<^verbatim>\<open>apriori\<close>, \<^verbatim>\<open>fpgrowth\<close> and \<^verbatim>\<open>association_rules\<close> return is
  decided inside \<^verbatim>\<open>mlxtend\<close>. The statements below hold for every such library; how
  the two miners' results compare (C5) and whether the rules are non-empty (C6) is not
  determined by the script.
\<close>

lemma frequent_itemsets_Inl:
  "frequent_itemsets lib b = Inl e \<longleftrightarrow>
     (apriori lib b (2 / 100) True = Inl e \<and> e \<noteq> MemoryError)
     \<or> (apriori lib b (2 / 100) True = Inl MemoryError \<and> fpgrowth lib b (2 / 100) True = Inl e)"
  by (auto simp: frequent_itemsets_def split: sum.splits)

lemma rules_Inl:
  "rules P lib df = Inl e \<longleftrightarrow>
     frequent_itemsets lib (basket P df) = Inl e
     \<or> (\<exists>fi. frequent_itemsets lib (basket P df) = Inr fi
          \<and> association_rules lib fi ''lift'' 1 = Inl e)"
  by (auto simp: rules_def split: sum.splits)

lemma dashboard_Inl:
  "dashboard parse P lib py c csv = Inl e \<longleftrightarrow>
     load_data parse P csv = Inl e
     \<or> (\<exists>df. load_data parse P csv = Inr df \<and> c = BasketAnalysis \<and> rules P lib df = Inl e)"
  by (auto simp: dashboard_def split: sum.splits)

text \<open>
  C4. When \<^verbatim>\<open>apriori\<close> raises \<^verbatim>\<open>MemoryError\<close>, the frequent itemsets are what
  \<^verbatim>\<open>fpgrowth\<close> gives on the same basket with the same support threshold 0.02. This is
  the only recovery of a run: the run ends with an error exactly when the date parser fails
  on a row the loader kept, or, in the basket section, when \<^verbatim>\<open>apriori\<close> raises
  another error than \<^verbatim>\<open>MemoryError\<close>, when \<^verbatim>\<open>fpgrowth\<close> raises after that
  \<^verbatim>\<open>MemoryError\<close>, or when \<^verbatim>\<open>association_rules\<close> raises; the error is then the
  one that was raised.
\<close>

theorem memory_error_falls_back:
  "(apriori lib b (2 / 100) True = Inl MemoryError \<longrightarrow>
      frequent_itemsets lib b = fpgrowth lib b (2 / 100) True)
   \<and> (\<forall>e. apriori lib b (2 / 100) True = Inl e \<and> e \<noteq> MemoryError \<longrightarrow>
        frequent_itemsets lib b = Inl e)
   \<and> (\<forall>fi. apriori lib b (2 / 100) True = Inr fi \<longrightarrow> frequent_itemsets lib b = Inr fi)
   \<and> (\<forall>e. frequent_itemsets lib (basket P df) = Inl e \<longrightarrow> rules P lib df = Inl e)
   \<and> (\<forall>fi. frequent_itemsets lib (basket P df) = Inr fi \<longrightarrow>
        rules P lib df = association_rules lib fi ''lift'' 1)
   \<and> (\<forall>e. load_data parse P csv = Inl e \<longleftrightarrow>
        e = DateParseError
        \<and> (\<exists>r \<in> set csv. CustomerID r \<noteq> None
             \<and> \<not> startswith ''C'' (astype_str (InvoiceNo r)) \<and> gt0 (Quantity r)
             \<and> (\<exists>s. InvoiceDate r = Some s \<and> parse s = None)))
   \<and> (\<forall>e. dashboard parse P lib py c csv = Inl e \<longleftrightarrow>
        load_data parse P csv = Inl e
        \<or> (\<exists>d. load_data parse P csv = Inr d \<and> c = BasketAnalysis
             \<and> ((apriori lib (basket P d) (2 / 100) True = Inl e \<and> e \<noteq> MemoryError)
                \<or> (apriori lib (basket P d) (2 / 100) True = Inl MemoryError
                    \<and> fpgrowth lib (basket P d) (2 / 100) True = Inl e)
                \<or> (\<exists>fi. frequent_itemsets lib (basket P d) = Inr fi
                     \<and> association_rules lib fi ''lift'' 1 = Inl e))))"
proof -
  have retry: "(apriori lib b (2 / 100) True = Inl MemoryError \<longrightarrow>
      frequent_itemsets lib b = fpgrowth lib b (2 / 100) True)
   \<and> (\<forall>e. apriori lib b (2 / 100) True = Inl e \<and> e \<noteq> MemoryError \<longrightarrow>
        frequent_itemsets lib b = Inl e)
   \<and> (\<forall>fi. apriori lib b (2 / 100) True = Inr fi \<longrightarrow> frequent_itemsets lib b = Inr fi)"
    by (simp add: frequent_itemsets_def)
  have pass: "(\<forall>e. frequent_itemsets lib (basket P df) = Inl e \<longrightarrow> rules P lib df = Inl e)
   \<and> (\<forall>fi. frequent_itemsets lib (basket P df) = Inr fi \<longrightarrow>
        rules P lib df = association_rules lib fi ''lift'' 1)"
    by (simp add: rules_def)
  have run: "dashboard parse P lib py c csv = Inl e \<longleftrightarrow>
        load_data parse P csv = Inl e
        \<or> (\<exists>d. load_data parse P csv = Inr d \<and> c = BasketAnalysis
             \<and> ((apriori lib (basket P d) (2 / 100) True = Inl e \<and> e \<noteq> MemoryError)
                \<or> (apriori lib (basket P d) (2 / 100) True = Inl MemoryError
                    \<and> fpgrowth lib (basket P d) (2 / 100) True = Inl e)
                \<or> (\<exists>fi. frequent_itemsets lib (basket P d) = Inr fi
                     \<and> association_rules lib fi ''lift'' 1 = Inl e)))" for e
    unfolding dashboard_Inl rules_Inl frequent_itemsets_Inl by blast
  from retry pass run load_data_Inl [of parse P csv] show ?thesis
    by (intro conjI allI) blast+
qed

theorem memory_error_falls_back_witness:
  "apriori oom_lib (basket int64_lib ex_df) (2 / 100) True = Inl MemoryError
   \<and> fpgrowth oom_lib (basket int64_lib ex_df) (2 / 100) True
       = Inr [([''ALARM CLOCK''], 2 / 100), ([''HEART HOLDER''], 2 / 100),
              ([''METAL LANTERN''], 2 / 100)]
   \<and> frequent_itemsets oom_lib (basket int64_lib ex_df)
       = fpgrowth oom_lib (basket int64_lib ex_df) (2 / 100) True
   \<and> load_data ex_parse int64_num_lib baddate_csv = Inl DateParseError
   \<and> dashboard ex_parse int64_num_lib oom_lib ex_pylib FraudDetection baddate_csv
       = Inl DateParseError"
proof -
  have a: "apriori oom_lib (basket int64_lib ex_df) (2 / 100) True = Inl MemoryError"
    by (simp add: oom_lib_def)
  have c: "columns (basket int64_lib ex_df) = [''ALARM CLOCK'', ''HEART HOLDER'', ''METAL LANTERN'']"
    by code_simp
  have f: "fpgrowth oom_lib (basket int64_lib ex_df) (2 / 100) True
       = Inr [([''ALARM CLOCK''], 2 / 100), ([''HEART HOLDER''], 2 / 100),
              ([''METAL LANTERN''], 2 / 100)]"
    by (simp add: oom_lib_def c)
  have l: "load_data ex_parse int64_num_lib baddate_csv = Inl DateParseError"
    by (simp add: load_data_def baddate_csv_def ex_parse_def cell_defs)
  note all = memory_error_falls_back [where lib = oom_lib and b = "basket int64_lib ex_df"
      and P = int64_num_lib and parse = ex_parse and csv = baddate_csv and py = ex_pylib
      and c = FraudDetection]
  from all a have "frequent_itemsets oom_lib (basket int64_lib ex_df)
       = fpgrowth oom_lib (basket int64_lib ex_df) (2 / 100) True"
    by blast
  moreover from all l have "dashboard ex_parse int64_num_lib oom_lib ex_pylib FraudDetection
      baddate_csv = Inl DateParseError"
    by blast
  ultimately show ?thesis using a f l by blast
qed

subsection \<open>The sections leave the loaded columns alone\<close>

lemma truncate_add_sales_columns: "row.truncate (add_sales_columns lib r) = r"
  by (simp add: add_sales_columns_def row.truncate_def row.extend_def)

lemma truncate_add_month_column: "row.truncate (add_month_column lib r) = r"
  by (simp add: add_month_column_def row.truncate_def row.extend_def)

text \<open>
  C7. Whatever section runs, the frame afterwards has the same rows, in the same order,
  with the same values in the nine columns the loader produced; the sales-performance
  and time-series sections add columns, the six other sections leave the frame as it is.
\<close>

theorem sections_keep_loader_columns:
  "loader_columns (run_section lib c df) = df
   \<and> (c \<noteq> SalesPerformance \<and> c \<noteq> TimeSeries \<longrightarrow> run_section lib c df = Loaded df)"
  by (cases c) (simp_all add: comp_def truncate_add_sales_columns truncate_add_month_column)

theorem sections_keep_loader_columns_witness:
  "loader_columns (run_section ex_pylib SalesPerformance ex_df) = ex_df
   \<and> run_section ex_pylib SalesPerformance ex_df \<noteq> Loaded ex_df
   \<and> FraudDetection \<noteq> SalesPerformance \<and> FraudDetection \<noteq> TimeSeries
   \<and> run_section ex_pylib FraudDetection ex_df = Loaded ex_df"
  using sections_keep_loader_columns [of ex_pylib SalesPerformance ex_df]
    sections_keep_loader_columns [of ex_pylib FraudDetection ex_df]
  by simp

subsection \<open>Frequency and repeat purchases\<close>

lemma count_map: "count (map f xs) = length (filter (\<lambda>r. f r \<noteq> None) xs)"
  by (induction xs) (auto simp: count_def split: option.splits)

lemma nunique_map: "nunique (map f xs) = card {i. \<exists>r \<in> set xs. f r = Some i}"
proof -
  have "set (List.map_filter id (map f xs)) = {i. \<exists>r \<in> set xs. f r = Some i}"
    by (force simp: set_map_filter)
  then show ?thesis
    by (simp add: nunique_def length_remdups_card_conv)
qed

lemma rfm_entry:
  assumes "(c, v) \<in> set (rfm P df)"
  shows "Frequency v = count (map InvoiceNo (filter (\<lambda>r. CustomerID r = Some c) df))"
  using assms by (auto simp: rfm_def Let_def agg_groupby)

lemma repeat_customers_entry:
  assumes "(c, n) \<in> set (repeat_customers df)"
  shows "n = nunique (map InvoiceNo (filter (\<lambda>r. CustomerID r = Some c) df))"
  using assms by (auto simp: repeat_customers_def agg_groupby)

lemma load_noinvoice: "load_data ex_parse int64_num_lib noinvoice_csv = Inr noinvoice_df"
  by (simp add: load_data_def noinvoice_csv_def noinvoice_df_def ex_parse_def cell_defs
      int64_num_lib_def int64_lib_def wrap64_def)

text \<open>
  C10. The Frequency of a customer in the segmentation view is the number of the
  customer's rows that have an invoice identifier (\<^verbatim>\<open>count\<close> leaves missing cells
  out): the number of the customer's rows when none of them lacks one. The retention view
  counts, per customer, the distinct invoice identifiers.
\<close>

theorem frequency_counts_rows:
  "((c, v) \<in> set (rfm P df) \<longrightarrow>
      Frequency v = length (filter (\<lambda>r. CustomerID r = Some c \<and> InvoiceNo r \<noteq> None) df)
      \<and> ((\<forall>r \<in> set df. InvoiceNo r \<noteq> None) \<longrightarrow>
           Frequency v = length (filter (\<lambda>r. CustomerID r = Some c) df)))
   \<and> ((c, n) \<in> set (repeat_customers df) \<longrightarrow>
        n = card {i. \<exists>r \<in> set df. CustomerID r = Some c \<and> InvoiceNo r = Some i})"
proof -
  have f: "Frequency v = length (filter (\<lambda>r. CustomerID r = Some c \<and> InvoiceNo r \<noteq> None) df)"
    if "(c, v) \<in> set (rfm P df)"
    using rfm_entry [OF that] by (simp add: count_map conj_commute)
  have g: "filter (\<lambda>r. CustomerID r = Some c \<and> InvoiceNo r \<noteq> None) df
           = filter (\<lambda>r. CustomerID r = Some c) df"
    if "\<forall>r \<in> set df. InvoiceNo r \<noteq> None"
    using that by (intro filter_cong) auto
  have h: "n = card {i. \<exists>r \<in> set df. CustomerID r = Some c \<and> InvoiceNo r = Some i}"
    if "(c, n) \<in> set (repeat_customers df)"
  proof -
    have "{i. \<exists>r \<in> set (filter (\<lambda>r. CustomerID r = Some c) df). InvoiceNo r = Some i}
          = {i. \<exists>r \<in> set df. CustomerID r = Some c \<and> InvoiceNo r = Some i}"
      by auto
    with repeat_customers_entry [OF that] show ?thesis
      by (simp add: nunique_map)
  qed
  from f g h show ?thesis by simp
qed

theorem frequency_counts_rows_witness:
  "load_data ex_parse int64_lib ex_csv = Inr ex_df
   \<and> list_all (\<lambda>r. InvoiceNo r \<noteq> None) ex_df
   \<and> map (\<lambda>(c, v). (c, Frequency v)) (rfm int64_lib ex_df) = [(12583, 1), (17850, 2)]
   \<and> repeat_customers ex_df = [(12583, 1), (17850, 1)]
   \<and> length (filter (\<lambda>r. CustomerID r = Some 17850) ex_df) = 2
   \<and> card {i. \<exists>r \<in> set ex_df. CustomerID r = Some 17850 \<and> InvoiceNo r = Some i} = 1"
proof -
  have a: "\<forall>r \<in> set ex_df. InvoiceNo r \<noteq> None" by (simp add: ex_df_def)
  have r: "rfm int64_lib ex_df =
     [(12583, \<lparr>Recency = Some 1, Frequency = 1, Monetary = 0, Diversity = Some 1\<rparr>),
      (17850, \<lparr>Recency = Some 1, Frequency = 2, Monetary = 42, Diversity = Some 2\<rparr>)]"
    by code_simp
  have p: "repeat_customers ex_df = [(12583, 1), (17850, 1)]"
    by code_simp
  have m: "(17850, \<lparr>Recency = Some 1, Frequency = 2, Monetary = 42, Diversity = Some 2\<rparr>)
           \<in> set (rfm int64_lib ex_df)" "(17850, 1) \<in> set (repeat_customers ex_df)"
    by (simp_all add: r p)
  from frequency_counts_rows [of 17850
      "\<lparr>Recency = Some 1, Frequency = 2, Monetary = 42, Diversity = Some 2\<rparr>"
      int64_lib ex_df 1]
    a m load_ex r p
  show ?thesis by (simp add: list_all_iff)
qed

text \<open>
  A cleaned frame whose only row has no invoice identifier: the customer has one row, and
  Frequency 0.
\<close>

theorem frequency_counts_rows_counterexample:
  "load_data ex_parse int64_num_lib noinvoice_csv = Inr noinvoice_df
   \<and> map (\<lambda>(c, v). (c, Frequency v)) (rfm int64_num_lib noinvoice_df) = [(13047, 0)]
   \<and> length (filter (\<lambda>r. CustomerID r = Some 13047) noinvoice_df) = 1
   \<and> Frequency (snd (hd (rfm int64_num_lib noinvoice_df)))
       \<noteq> length (filter (\<lambda>r. CustomerID r = Some 13047) noinvoice_df)"
proof -
  have "rfm int64_num_lib noinvoice_df =
     [(13047, \<lparr>Recency = Some 1, Frequency = 0, Monetary = 10, Diversity = Some 1\<rparr>)]"
    by code_simp
  with load_noinvoice show ?thesis by (simp add: noinvoice_df_def)
qed

subsection \<open>The basket matrix\<close>

lemma index_of_None: "index_of x xs = None \<longleftrightarrow> x \<notin> set xs"
  by (induction xs) auto

lemma index_of_Some: "index_of x xs = Some n \<Longrightarrow> n < length xs \<and> xs ! n = x"
  by (induction xs arbitrary: n) (auto split: if_splits)

lemma basket_at_tabulate:
  "basket_at \<lparr>index = idx, columns = cols, cells = map (\<lambda>i. map (g i) cols) idx\<rparr> i p
   = (if i \<in> set idx \<and> p \<in> set cols then Some (g i p) else None)"
proof (cases "index_of i idx")
  case None
  then have "i \<notin> set idx" by (simp add: index_of_None)
  with None show ?thesis by (simp add: basket_at_def)
next
  case (Some m)
  note m = index_of_Some [OF Some]
  then have i: "i \<in> set idx" by auto
  show ?thesis
  proof (cases "index_of p cols")
    case None
    then have "p \<notin> set cols" by (simp add: index_of_None)
    with None Some show ?thesis by (simp add: basket_at_def)
  next
    case n: (Some n)
    note n' = index_of_Some [OF n]
    then have "p \<in> set cols" by auto
    with i Some n m n' show ?thesis by (simp add: basket_at_def)
  qed
qed

lemma map_of_tabulate:
  "map_of (map (\<lambda>k. (k, f k)) ks) k = (if k \<in> set ks then Some (f k) else None)"
  by (induction ks) auto

lemma key2_Some: "key2 a b = Some (x, y) \<longleftrightarrow> a = Some x \<and> b = Some y"
  by (auto simp: key2_def split: option.splits)

lemma set_sort_invoices: "set (sort_invoices numeric ls) = set ls"
  by (simp add: sort_invoices_def)

lemma length_top_products:
  "length (top_products P df) = min 500 (length (product_quantities P df))"
  by (simp add: top_products_def sort_values_desc_def min.commute)

lemma distinct_product_quantities: "distinct (map fst (product_quantities P df))"
  by (simp add: product_quantities_def map_fst_agg map_fst_groupby distinct_group_keys)

lemma sort_values_desc_sorted: "sorted_wrt (\<lambda>a b. snd b \<le> snd a) (sort_values_desc tie s)"
proof -
  let ?key = "\<lambda>(k, v). (v, tie k)"
  have "sorted (map ?key (sort_key ?key s))" by (rule sorted_sort_key)
  then have "sorted_wrt (\<lambda>a b. ?key b \<le> ?key a) (sort_values_desc tie s)"
    by (simp add: sort_values_desc_def sorted_wrt_rev sorted_map)
  then show ?thesis
    by (rule sorted_wrt_mono_rel [rotated]) (auto simp: less_eq_prod_def)
qed

lemma top_is_largest:
  assumes "(k, v) \<in> set (take n (sort_values_desc tie s))" and "(k', v') \<in> set s"
    and "k' \<notin> fst ` set (take n (sort_values_desc tie s))"
  shows "v' \<le> v"
proof -
  let ?t = "sort_values_desc tie s"
  have le: "\<forall>x \<in> set (take n ?t). \<forall>y \<in> set (drop n ?t). snd y \<le> snd x"
    using sort_values_desc_sorted [of tie s]
      sorted_wrt_append [of "\<lambda>a b. snd b \<le> snd a" "take n ?t" "drop n ?t"]
    unfolding append_take_drop_id by blast
  have "set ?t = set (take n ?t) \<union> set (drop n ?t)"
    by (metis append_take_drop_id set_append)
  moreover from assms(2) have "(k', v') \<in> set ?t"
    by (simp add: set_sort_values_desc)
  moreover have "(k', v') \<notin> set (take n ?t)"
    using assms(3) by (metis fst_conv image_eqI)
  ultimately have "(k', v') \<in> set (drop n ?t)" by blast
  with le assms(1) show ?thesis by force
qed

lemma top_products_largest:
  assumes "(p, v) \<in> set (product_quantities P df)" and "(p', v') \<in> set (product_quantities P df)"
    and "p \<in> set (top_products P df)" and "p' \<notin> set (top_products P df)"
  shows "v' \<le> v"
proof -
  let ?t = "sort_values_desc (tie_order P) (product_quantities P df)"
  from assms(3) obtain w where w: "(p, w) \<in> set (take 500 ?t)"
    by (auto simp: top_products_def)
  then have "(p, w) \<in> set (product_quantities P df)"
    using set_sort_values_desc [of "tie_order P" "product_quantities P df"]
    by (auto dest: in_set_takeD)
  with assms(1) have "w = v"
    using distinct_product_quantities [of P df] by (metis eq_key_imp_eq_value)
  with w have a: "(p, v) \<in> set (take 500 ?t)" by simp
  from assms(4) have b: "p' \<notin> fst ` set (take 500 ?t)"
    by (simp add: top_products_def)
  show ?thesis by (rule top_is_largest [OF a assms(2) b])
qed

text \<open>The basket matrix, entry by entry.\<close>

lemma basket_at_basket:
  "basket_at (basket P df) i p =
     (let small = filter (\<lambda>r. isin (Description r) (top_products P df)) df;
          g = filter (\<lambda>r. InvoiceNo r = Some i \<and> Description r = Some p) small
      in if (\<exists>r \<in> set small. \<exists>q. InvoiceNo r = Some i \<and> Description r = Some q)
            \<and> (\<exists>r \<in> set small. \<exists>j. InvoiceNo r = Some j \<and> Description r = Some p)
         then Some (g \<noteq> [] \<and> 0 < nansum (sum_quantity P) (map Quantity g)) else None)"
proof -
  define small where "small = filter (\<lambda>r. isin (Description r) (top_products P df)) df"
  define key where "key = (\<lambda>r::'a row. key2 (InvoiceNo r) (Description r))"
  define total where
    "total = (\<lambda>k. nansum (sum_quantity P) (map Quantity (filter (\<lambda>r. key r = Some k) small)))"
  define keys where "keys = group_keys key small"
  define qty where "qty = map (\<lambda>k. (k, total k)) keys"
  define cell where
    "cell = (\<lambda>i p. (0::int) < (case map_of qty (i, p) of None \<Rightarrow> 0 | Some q \<Rightarrow> q))"
  define idx where "idx = sort_invoices (invoice_int64 P) (remdups (map (\<lambda>((i, p), q). i) qty))"
  define cols where "cols = sort (remdups (map (\<lambda>((i, p), q). p) qty))"
  have keys: "(a, b) \<in> set keys \<longleftrightarrow> (\<exists>r \<in> set small. InvoiceNo r = Some a \<and> Description r = Some b)"
    for a b
    by (simp add: keys_def set_group_keys key_def key2_Some)
  have b: "basket P df = \<lparr>index = idx, columns = cols, cells = map (\<lambda>i. map (cell i) cols) idx\<rparr>"
    by (simp add: basket_def Let_def agg_groupby qty_def total_def keys_def key_def small_def
        cell_def idx_def cols_def)
  have idx: "i \<in> set idx
             \<longleftrightarrow> (\<exists>r \<in> set small. \<exists>q. InvoiceNo r = Some i \<and> Description r = Some q)"
    using keys by (force simp: qty_def idx_def set_sort_invoices)
  have col: "p \<in> set cols
             \<longleftrightarrow> (\<exists>r \<in> set small. \<exists>j. InvoiceNo r = Some j \<and> Description r = Some p)"
    using keys by (force simp: qty_def cols_def)
  have same: "filter (\<lambda>r. key r = Some (i, p)) small
              = filter (\<lambda>r. InvoiceNo r = Some i \<and> Description r = Some p) small"
    by (simp add: key_def key2_Some)
  have "cell i p \<longleftrightarrow> (i, p) \<in> set keys \<and> 0 < total (i, p)"
    by (simp add: cell_def qty_def map_of_tabulate)
  also have "(i, p) \<in> set keys
             \<longleftrightarrow> filter (\<lambda>r. InvoiceNo r = Some i \<and> Description r = Some p) small \<noteq> []"
    by (auto simp: keys filter_empty_conv)
  finally have cell: "cell i p \<longleftrightarrow>
      filter (\<lambda>r. InvoiceNo r = Some i \<and> Description r = Some p) small \<noteq> []
      \<and> 0 < nansum (sum_quantity P)
          (map Quantity (filter (\<lambda>r. InvoiceNo r = Some i \<and> Description r = Some p) small))"
    by (simp add: total_def same)
  show ?thesis
    unfolding b basket_at_tabulate idx col cell Let_def small_def [symmetric] ..
qed

lemma loaded_gt0:
  assumes "load_data parse P csv = Inr df" and "r \<in> set df"
  shows "gt0 (Quantity r)"
  using loaded_quantity [OF assms] by (auto simp: gt0_def)

lemma columns_basket: "set (columns (basket P df)) \<subseteq> set (top_products P df)"
proof
  fix p
  assume "p \<in> set (columns (basket P df))"
  then obtain k q where "((k, p), q) \<in> set (agg (\<lambda>g. nansum (sum_quantity P) (map Quantity g))
      (groupby (\<lambda>r. key2 (InvoiceNo r) (Description r))
        (filter (\<lambda>r. isin (Description r) (top_products P df)) df)))"
    by (auto simp: basket_def Let_def)
  then have "(k, p) \<in> set (group_keys (\<lambda>r. key2 (InvoiceNo r) (Description r))
      (filter (\<lambda>r. isin (Description r) (top_products P df)) df))"
    by (auto simp: agg_groupby)
  then have "isin (Some p) (top_products P df)"
    by (auto simp: set_group_keys key2_Some)
  then show "p \<in> set (top_products P df)" by (simp add: isin_def)
qed

lemma basket_at_outside_top:
  assumes "p \<notin> set (top_products P df)"
  shows "basket_at (basket P df) i p = None"
proof -
  from assms have "\<not> (\<exists>r \<in> set (filter (\<lambda>r. isin (Description r) (top_products P df)) df).
      \<exists>j. InvoiceNo r = Some j \<and> Description r = Some p)"
    by (auto simp: isin_def)
  then show ?thesis
    by (simp add: basket_at_basket Let_def)
qed

lemma sum_list_positive:
  fixes f :: "'r \<Rightarrow> int option"
  assumes "\<forall>r \<in> set xs. gt0 (f r)" and "xs \<noteq> []"
  shows "0 < sum_list (List.map_filter f xs)"
proof -
  have "0 \<le> sum_list (List.map_filter f ys)" if "\<forall>r \<in> set ys. gt0 (f r)" for ys
    using that by (induction ys) (auto simp: gt0_def split: option.splits)
  with assms show ?thesis
    by (cases xs) (auto simp: gt0_def split: option.splits intro: add_pos_nonneg)
qed

lemma basket_at_true:
  "basket_at (basket P df) i p = Some True \<longleftrightarrow>
     p \<in> set (top_products P df)
     \<and> filter (\<lambda>r. InvoiceNo r = Some i \<and> Description r = Some p) df \<noteq> []
     \<and> 0 < nansum (sum_quantity P)
         (map Quantity (filter (\<lambda>r. InvoiceNo r = Some i \<and> Description r = Some p) df))"
proof (cases "p \<in> set (top_products P df)")
  case False
  then show ?thesis by (simp add: basket_at_outside_top)
next
  case True
  define small where "small = filter (\<lambda>r. isin (Description r) (top_products P df)) df"
  have g: "filter (\<lambda>r. InvoiceNo r = Some i \<and> Description r = Some p) small
           = filter (\<lambda>r. InvoiceNo r = Some i \<and> Description r = Some p) df"
    unfolding small_def filter_filter
    using True by (intro filter_cong) (auto simp: isin_def)
  let ?gd = "filter (\<lambda>r. InvoiceNo r = Some i \<and> Description r = Some p) df"
  let ?A = "(\<exists>r \<in> set small. \<exists>q. InvoiceNo r = Some i \<and> Description r = Some q)
        \<and> (\<exists>r \<in> set small. \<exists>j. InvoiceNo r = Some j \<and> Description r = Some p)"
  have eq: "basket_at (basket P df) i p
      = (if ?A then Some (?gd \<noteq> [] \<and> 0 < nansum (sum_quantity P) (map Quantity ?gd)) else None)"
    by (simp only: basket_at_basket Let_def small_def [symmetric] g)
  show ?thesis
  proof (cases "?gd = []")
    case empty: True
    then show ?thesis by (simp add: eq)
  next
    case False
    then obtain r where "r \<in> set ?gd" by (cases ?gd) auto
    then have "r \<in> set small" "InvoiceNo r = Some i" "Description r = Some p"
      using True by (simp_all add: small_def isin_def)
    then have ?A by blast
    with False True show ?thesis by (simp add: eq)
  qed
qed

text \<open>
  C8. The basket matrix is built on the products of \<open>top_products\<close> only: at most 500
  products, none of which has a smaller summed quantity than a product left out. Its
  columns are among them. Its entry for an invoice and a product is true exactly when the
  product is one of them, the invoice has rows with the product, and the library's sum of
  their quantities is positive; a true entry therefore means that the product is in the
  invoice with a positive quantity, and the converse holds whenever that sum is the exact
  sum of the quantities (no overflow). A product outside the top products has no entry.
\<close>

theorem basket_entry_true_iff:
  assumes "load_data parse P csv = Inr df"
  shows "length (top_products P df) = min 500 (length (product_quantities P df))
     \<and> (\<forall>p v p' v'. (p, v) \<in> set (product_quantities P df)
            \<and> (p', v') \<in> set (product_quantities P df)
            \<and> p \<in> set (top_products P df) \<and> p' \<notin> set (top_products P df) \<longrightarrow> v' \<le> v)
     \<and> set (columns (basket P df)) \<subseteq> set (top_products P df)
     \<and> (basket_at (basket P df) i p = Some True \<longleftrightarrow>
          p \<in> set (top_products P df)
          \<and> filter (\<lambda>r. InvoiceNo r = Some i \<and> Description r = Some p) df \<noteq> []
          \<and> 0 < nansum (sum_quantity P)
              (map Quantity (filter (\<lambda>r. InvoiceNo r = Some i \<and> Description r = Some p) df)))
     \<and> (basket_at (basket P df) i p = Some True \<longrightarrow>
          p \<in> set (top_products P df)
          \<and> (\<exists>r \<in> set df. InvoiceNo r = Some i \<and> Description r = Some p \<and> gt0 (Quantity r)))
     \<and> (nansum (sum_quantity P)
            (map Quantity (filter (\<lambda>r. InvoiceNo r = Some i \<and> Description r = Some p) df))
          = sum_list (List.map_filter Quantity
              (filter (\<lambda>r. InvoiceNo r = Some i \<and> Description r = Some p) df)) \<longrightarrow>
          (basket_at (basket P df) i p = Some True \<longleftrightarrow>
             p \<in> set (top_products P df)
             \<and> (\<exists>r \<in> set df. InvoiceNo r = Some i \<and> Description r = Some p
                  \<and> gt0 (Quantity r))))
     \<and> (p \<notin> set (top_products P df) \<longrightarrow> basket_at (basket P df) i p = None)"
proof -
  define g where "g = filter (\<lambda>r. InvoiceNo r = Some i \<and> Description r = Some p) df"
  have g: "r \<in> set g \<longleftrightarrow> r \<in> set df \<and> InvoiceNo r = Some i \<and> Description r = Some p" for r
    by (auto simp: g_def)
  have pos: "\<forall>r \<in> set g. gt0 (Quantity r)"
    using loaded_gt0 [OF assms] by (simp add: g)
  have ne: "g \<noteq> [] \<longleftrightarrow>
      (\<exists>r \<in> set df. InvoiceNo r = Some i \<and> Description r = Some p \<and> gt0 (Quantity r))"
  proof -
    have "g \<noteq> [] \<longleftrightarrow> (\<exists>r. r \<in> set g)" by (cases g) auto
    with pos show ?thesis by (auto simp: g)
  qed
  have iff: "basket_at (basket P df) i p = Some True \<longleftrightarrow>
      p \<in> set (top_products P df) \<and> g \<noteq> [] \<and> 0 < nansum (sum_quantity P) (map Quantity g)"
    unfolding g_def by (rule basket_at_true)
  have exact: "basket_at (basket P df) i p = Some True \<longleftrightarrow>
      p \<in> set (top_products P df) \<and> g \<noteq> []"
    if "nansum (sum_quantity P) (map Quantity g) = sum_list (List.map_filter Quantity g)"
  proof -
    have "0 < sum_list (List.map_filter Quantity g)" if "g \<noteq> []"
      by (rule sum_list_positive [OF pos that])
    with iff \<open>nansum (sum_quantity P) (map Quantity g) = sum_list (List.map_filter Quantity g)\<close>
    show ?thesis by auto
  qed
  have largest: "\<forall>p v p' v'. (p, v) \<in> set (product_quantities P df)
            \<and> (p', v') \<in> set (product_quantities P df)
            \<and> p \<in> set (top_products P df) \<and> p' \<notin> set (top_products P df) \<longrightarrow> v' \<le> v"
    using top_products_largest [of _ _ P df] by blast
  note none = basket_at_outside_top [of p P df i]
  from length_top_products [of P df] largest columns_basket [of P df] iff exact none
  show ?thesis
    unfolding ne [symmetric] g_def [symmetric] by blast
qed

theorem basket_entry_true_iff_witness:
  "load_data ex_parse int64_lib ex_csv = Inr ex_df
   \<and> top_products int64_lib ex_df = [''ALARM CLOCK'', ''METAL LANTERN'', ''HEART HOLDER'']
   \<and> basket int64_lib ex_df =
       \<lparr>index = [''536365'', ''536370''],
        columns = [''ALARM CLOCK'', ''HEART HOLDER'', ''METAL LANTERN''],
        cells = [[False, True, True], [True, False, False]]\<rparr>
   \<and> nansum (sum_quantity int64_lib) (map Quantity
         (filter (\<lambda>r. InvoiceNo r = Some ''536365'' \<and> Description r = Some ''HEART HOLDER'')
            ex_df)) = 6
   \<and> sum_list (List.map_filter Quantity
         (filter (\<lambda>r. InvoiceNo r = Some ''536365'' \<and> Description r = Some ''HEART HOLDER'')
            ex_df)) = 6
   \<and> basket_at (basket int64_lib ex_df) ''536365'' ''HEART HOLDER'' = Some True
   \<and> InvoiceNo (hd ex_df) = Some ''536365'' \<and> Description (hd ex_df) = Some ''HEART HOLDER''
   \<and> gt0 (Quantity (hd ex_df))
   \<and> ''DOORMAT'' \<notin> set (top_products int64_lib ex_df)
   \<and> basket_at (basket int64_lib ex_df) ''536365'' ''DOORMAT'' = None"
proof -
  have t: "top_products int64_lib ex_df = [''ALARM CLOCK'', ''METAL LANTERN'', ''HEART HOLDER'']"
    by code_simp
  have b: "basket int64_lib ex_df =
       \<lparr>index = [''536365'', ''536370''],
        columns = [''ALARM CLOCK'', ''HEART HOLDER'', ''METAL LANTERN''],
        cells = [[False, True, True], [True, False, False]]\<rparr>"
    by code_simp
  have s: "nansum (sum_quantity int64_lib) (map Quantity
         (filter (\<lambda>r. InvoiceNo r = Some ''536365'' \<and> Description r = Some ''HEART HOLDER'')
            ex_df)) = 6"
    "sum_list (List.map_filter Quantity
         (filter (\<lambda>r. InvoiceNo r = Some ''536365'' \<and> Description r = Some ''HEART HOLDER'')
            ex_df)) = 6"
    by (simp_all add: ex_df_def nansum_def int64_lib_def wrap64_def)
  have h: "InvoiceNo (hd ex_df) = Some ''536365''" "Description (hd ex_df) = Some ''HEART HOLDER''"
    "gt0 (Quantity (hd ex_df))" "hd ex_df \<in> set ex_df"
    by (simp_all add: ex_df_def gt0_def)
  have in_top: "''HEART HOLDER'' \<in> set (top_products int64_lib ex_df)"
    and out: "''DOORMAT'' \<notin> set (top_products int64_lib ex_df)"
    by (simp_all add: t)
  note a = basket_entry_true_iff [OF load_ex, of "''536365''" "''HEART HOLDER''"]
  note d = basket_entry_true_iff [OF load_ex, of "''536365''" "''DOORMAT''"]
  have e: "nansum (sum_quantity int64_lib) (map Quantity
         (filter (\<lambda>r. InvoiceNo r = Some ''536365'' \<and> Description r = Some ''HEART HOLDER'')
            ex_df))
      = sum_list (List.map_filter Quantity
         (filter (\<lambda>r. InvoiceNo r = Some ''536365'' \<and> Description r = Some ''HEART HOLDER'')
            ex_df))"
    by (simp only: s)
  from a e in_top h have "basket_at (basket int64_lib ex_df) ''536365'' ''HEART HOLDER'' = Some True"
    by blast
  moreover from d out have "basket_at (basket int64_lib ex_df) ''536365'' ''DOORMAT'' = None"
    by blast
  ultimately show ?thesis using load_ex t b s h out by blast
qed

subsection \<open>A product that misses the top 500\<close>

lemma product_eq: "product m = product n \<longleftrightarrow> m = n"
proof
  assume "product m = product n"
  then have "length (product m) = length (product n)" by simp
  then show "m = n" by (simp add: product_def)
qed simp

lemma filter_eq_upt: "filter (\<lambda>m. m = n) [0..<k] = (if n < k then [n] else [])"
  by (induction k) auto

lemma big_group:
  "filter (\<lambda>r. Description r = Some (product n)) big_df = (if n < 501 then [big_row n] else [])"
proof -
  have "filter (\<lambda>r. Description r = Some (product n)) big_df
        = map big_row (filter (\<lambda>m. m = n) [0..<501])"
    by (simp add: big_df_def filter_map comp_def big_row_def product_eq)
  then show ?thesis by (simp only: filter_eq_upt) simp
qed

lemma big_keys: "set (group_keys Description big_df) = product ` {0..<501}"
  by (auto simp: set_group_keys big_df_def big_row_def)

lemma big_quantity:
  assumes "n < 501"
  shows "(product n, if n < 500 then 2 else 1) \<in> set (product_quantities int64_num_lib big_df)"
proof -
  have "nansum (sum_quantity int64_num_lib)
          (map Quantity (filter (\<lambda>r. Description r = Some (product n)) big_df))
        = (if n < 500 then 2 else 1)"
    using assms
    by (simp add: big_group nansum_def big_row_def int64_num_lib_def int64_lib_def wrap64_def)
  moreover have "product n \<in> set (group_keys Description big_df)"
    using assms by (simp add: big_keys)
  ultimately show ?thesis
    unfolding product_quantities_def agg_groupby by force
qed

lemma to_datetime_const:
  assumes "parse s = Some t"
  shows "to_datetime parse (map (\<lambda>x. Some s) xs) = Inr (map (\<lambda>x. Some t) xs)"
  using assms by (induction xs) simp_all

lemma big_rows:
  "map (add_revenue int64_num_lib)
     (map2 with_date (map big_csv_row ns) (map (\<lambda>n. Some 1291191960000000000) ns))
   = map big_row ns"
  by (induction ns)
     (simp_all add: big_csv_row_def big_row_def cell_defs int64_num_lib_def int64_lib_def
        wrap64_def)

lemma load_big: "load_data ex_parse int64_num_lib big_csv = Inr big_df"
proof -
  have keep: "filter (\<lambda>r. gt0 (Quantity r))
      (filter (\<lambda>r. \<not> startswith ''C'' (astype_str (InvoiceNo r)))
        (filter (\<lambda>r. CustomerID r \<noteq> None) big_csv)) = big_csv"
    by (simp add: big_csv_def big_csv_row_def cell_defs)
  have dates: "map InvoiceDate big_csv = map (\<lambda>n. Some ''12/1/2010 8:26'') [0..<501]"
    by (simp add: big_csv_def big_csv_row_def)
  have parsed: "to_datetime ex_parse (map InvoiceDate big_csv)
                = Inr (map (\<lambda>n. Some 1291191960000000000) [0..<501])"
    unfolding dates by (rule to_datetime_const) (simp add: ex_parse_def)
  have rows: "map (add_revenue int64_num_lib)
      (map2 with_date big_csv (map (\<lambda>n. Some 1291191960000000000) [0..<501])) = big_df"
    unfolding big_csv_def big_df_def by (rule big_rows)
  show ?thesis
    by (simp only: load_data_def Let_def keep parsed sum.case rows)
qed

lemma product_500_not_top: "product 500 \<notin> set (top_products int64_num_lib big_df)"
proof
  let ?top = "top_products int64_num_lib big_df"
  assume top: "product 500 \<in> set ?top"
  have last: "(product 500, 1) \<in> set (product_quantities int64_num_lib big_df)"
    using big_quantity [of 500] by simp
  have "product n \<in> set ?top" if "n < 500" for n
  proof (rule ccontr)
    assume out: "product n \<notin> set ?top"
    from that have "(product n, 2) \<in> set (product_quantities int64_num_lib big_df)"
      using big_quantity [of n] by simp
    from top_products_largest [OF last this top out] show False by simp
  qed
  with top have "product n \<in> set ?top" if "n < 501" for n
    using that by (cases "n = 500") auto
  then have "product ` {0..<501} \<subseteq> set ?top" by auto
  then have "card (product ` {0..<501}) \<le> card (set ?top)"
    by (intro card_mono) auto
  moreover have "card (product ` {0..<501}) = 501"
    by (subst card_image) (auto simp: inj_on_def product_eq)
  moreover have "card (set ?top) \<le> 500"
    using card_length [of ?top] length_top_products [of int64_num_lib big_df] by simp
  ultimately show False by simp
qed

text \<open>
  The cleaned frame of 501 products: the product bought once is in the invoice with a
  positive quantity, and the basket matrix has no entry for it, true or false.
\<close>

theorem basket_entry_true_iff_counterexample:
  "load_data ex_parse int64_num_lib big_csv = Inr big_df
   \<and> big_row 500 \<in> set big_df
   \<and> InvoiceNo (big_row 500) = Some ''536365''
   \<and> Description (big_row 500) = Some (product 500)
   \<and> Quantity (big_row 500) = Some 1
   \<and> basket_at (basket int64_num_lib big_df) ''536365'' (product 500) = None
   \<and> basket_at (basket int64_num_lib big_df) ''536365'' (product 500) \<noteq> Some True"
proof -
  have "big_row 500 \<in> set big_df" by (simp add: big_df_def)
  moreover have "basket_at (basket int64_num_lib big_df) ''536365'' (product 500) = None"
    by (rule basket_at_outside_top [OF product_500_not_top])
  ultimately show ?thesis
    using load_big by (simp add: big_row_def)
qed

end
